theory Spec2Isabelle
  imports Complex_Main
begin

section \<open>Python values, objects and the object store\<close>

text \<open>
  The iron modules (\<^verbatim>\<open>iron_win.py\<close>, \<^verbatim>\<open>iron_ore.py\<close>) work on nested configuration
  dictionaries, which Python shares by reference and mutates in place. The store is a
  list of objects; an address is an index into it, and allocation appends. Floats are
  modelled as reals: rounding, infinities and NaN are outside the model.
\<close>

type_synonym addr = nat

datatype pyval = PNone | PBool bool | PInt int | PFloat real | PStr string | PRef addr

type_synonym pydict = "(string \<times> pyval) list"

datatype value_error = LcohNotEqual | InputRequired | OnlyOneInput

text \<open>
  \<open>ValueError\<close> carries which of the three messages of the modules was raised.
  \<open>InvalidRef\<close> is a reference to an address the store does not have: Python cannot
  build one, the constructor makes every store access total. \<open>ComplexResult\<close> stands
  for a fractional power of a negative float, which Python evaluates to a complex number
  without raising: the result leaves the float-typed records.
\<close>

datatype error =
    ValueError value_error
  | KeyError string
  | TypeError
  | ZeroDivisionError
  | UnboundLocalError
  | RecursionError
  | ExternalError
  | InvalidRef
  | ComplexResult

record Feedstocks =
  natural_gas_prices :: pyval
  excess_oxygen :: real
  lime_unitcost :: real
  carbon_unitcost :: real
  electricity_cost :: real
  iron_ore_pellet_unitcost :: real
  oxygen_market_price :: real
  raw_water_unitcost :: real
  iron_ore_consumption :: real
  raw_water_consumption :: real
  lime_consumption :: real
  carbon_consumption :: real
  hydrogen_consumption :: real
  natural_gas_consumption :: real
  electricity_consumption :: real
  slag_disposal_unitcost :: real
  slag_production :: real
  maintenance_materials_unitcost :: real

datatype pyobj = ODict pydict | OFeedstocks Feedstocks

type_synonym heap = "pyobj list"

text \<open>Numbers as Python arithmetic reads them: \<open>bool\<close> is a subclass of \<open>int\<close>.\<close>

fun py_float_of :: "pyval \<Rightarrow> real option" where
  "py_float_of (PInt i) = Some (of_int i)"
| "py_float_of (PFloat x) = Some x"
| "py_float_of (PBool b) = Some (if b then 1 else 0)"
| "py_float_of _ = None"

text \<open>\<^verbatim>\<open>obj[key]\<close> for a string key.\<close>

fun subscript :: "heap \<Rightarrow> pyval \<Rightarrow> string \<Rightarrow> error + pyval" where
  "subscript h (PRef a) k =
     (if a < length h then
        (case h ! a of
           ODict d \<Rightarrow> (case map_of d k of Some v \<Rightarrow> Inr v | None \<Rightarrow> Inl (KeyError k))
         | OFeedstocks _ \<Rightarrow> Inl TypeError)
      else Inl InvalidRef)"
| "subscript h _ k = Inl TypeError"

text \<open>A dictionary keeps insertion order; assigning to a present key keeps its place.\<close>

fun dict_set :: "pydict \<Rightarrow> string \<Rightarrow> pyval \<Rightarrow> pydict" where
  "dict_set [] k v = [(k, v)]"
| "dict_set ((k', v') # d) k v = (if k' = k then (k, v) # d else (k', v') # dict_set d k v)"

text \<open>\<^verbatim>\<open>obj[key] = value\<close>.\<close>

fun setitem :: "heap \<Rightarrow> pyval \<Rightarrow> string \<Rightarrow> pyval \<Rightarrow> error + heap" where
  "setitem h (PRef a) k v =
     (if a < length h then
        (case h ! a of
           ODict d \<Rightarrow> Inr (h[a := ODict (dict_set d k v)])
         | OFeedstocks _ \<Rightarrow> Inl TypeError)
      else Inl InvalidRef)"
| "setitem h _ k v = Inl TypeError"

text \<open>\<^verbatim>\<open>str(n)\<close> for an integer.\<close>

fun str_nat :: "nat \<Rightarrow> string" where
  "str_nat n =
     (if n < 10 then [''0123456789'' ! n] else str_nat (n div 10) @ [''0123456789'' ! (n mod 10)])"

declare str_nat.simps [simp del]

definition str_int :: "int \<Rightarrow> string" where
  "str_int i = (if i < 0 then CHR ''-'' # str_nat (nat (- i)) else str_nat (nat i))"

section \<open>The typed records\<close>


text \<open>
  \<^verbatim>\<open>iron_ore.py\<close> is \<^verbatim>\<open>iron_win.py\<close> with \<open>iron_win\<close> renamed to \<open>iron_ore\<close> in
  every identifier (and in the labels handed to the finance solver). The records and
  functions below carry the names of \<^verbatim>\<open>iron_win.py\<close>; where a name is a dictionary
  key at run time the technology selects it.
\<close>

datatype technology = IronWin | IronOre

text \<open>
  The classes of the modules, as records typed by the annotations. Attributes of the
  same name in several classes are told apart by the record's name.
\<close>

record IronWinCapacityModelConfig =
  input_capacity_factor_estimate :: real
  feedstocks :: Feedstocks
  hydrogen_amount_kgpy :: "real option"
  desired_iron_win_mtpy :: "real option"
  performance_model :: pyval

record IronWinCapacityModelOutputs =
  iron_win_plant_capacity_mtpy :: real
  out_hydrogen_amount_kgpy :: real

record IronWinCosts =
  capex_eaf_casting :: real
  capex_shaft_furnace :: real
  capex_oxygen_supply :: real
  capex_h2_preheating :: real
  capex_cooling_tower :: real
  capex_piping :: real
  capex_elec_instr :: real
  capex_buildings_storage_water :: real
  capex_misc :: real
  labor_cost_annual_operation :: real
  labor_cost_maintenance :: real
  labor_cost_admin_support :: real
  property_tax_insurance :: real
  land_cost :: real
  installation_cost :: real

record IronWinCostModelOutputs = IronWinCosts +
  total_plant_cost :: real
  total_fixed_operating_cost :: real
  labor_cost_fivemonth :: real
  maintenance_materials_onemonth :: real
  non_fuel_consumables_onemonth :: real
  waste_disposal_onemonth :: real
  monthly_energy_cost :: real
  spare_parts_cost :: real
  misc_owners_costs :: real

record IronWinFinanceModelConfig =
  plant_life :: int
  plant_capacity_mtpy :: real
  plant_capacity_factor :: real
  iron_win_production_mtpy :: real
  lcoh :: real
  grid_prices :: pyval
  feedstocks :: Feedstocks
  costs :: IronWinCostModelOutputs
  o2_heat_integration :: bool
  financial_assumptions :: pyval
  install_years :: int
  gen_inflation :: real
  save_plots :: bool
  show_plots :: bool
  output_dir :: string
  design_scenario_id :: int

record IronWinCostModelConfig =
  operational_year :: int
  plant_capacity_mtpy :: real
  lcoh :: real
  capex_misc :: real
  feedstocks :: Feedstocks
  o2_heat_integration :: bool
  co2_fuel_emissions :: real
  co2_carbon_emissions :: real
  surface_water_discharge :: real
  cost_model :: pyval

section \<open>Capacity sizing\<close>

text \<open>Truthiness of an \<open>Optional[float]\<close>: \<open>None\<close> and \<open>0.0\<close> are false.\<close>

definition truthy :: "real option \<Rightarrow> bool" where
  "truthy q = (case q of None \<Rightarrow> False | Some x \<Rightarrow> x \<noteq> 0)"

text \<open>
  \<^verbatim>\<open>__attrs_post_init__\<close> of \<open>IronWinCapacityModelConfig\<close>
  (and of \<open>IronOreCapacityModelConfig\<close>): the first check tests \<open>is None\<close>, the second
  tests truthiness.
\<close>

definition capacity_post_init :: "IronWinCapacityModelConfig \<Rightarrow> error + IronWinCapacityModelConfig" where
  "capacity_post_init c =
     (if hydrogen_amount_kgpy c = None \<and> desired_iron_win_mtpy c = None
        then Inl (ValueError InputRequired)
      else if truthy (hydrogen_amount_kgpy c) \<and> truthy (desired_iron_win_mtpy c)
        then Inl (ValueError OnlyOneInput)
      else Inr c)"

text \<open>
  The constructor called with the two quantities (the other attributes are stored as
  given): Python returns the object only when \<^verbatim>\<open>__attrs_post_init__\<close> does not raise.
\<close>

definition IronWinCapacityModelConfig_init ::
  "real \<Rightarrow> Feedstocks \<Rightarrow> real option \<Rightarrow> real option \<Rightarrow> pyval \<Rightarrow> error + IronWinCapacityModelConfig" where
  "IronWinCapacityModelConfig_init cf fs hy de pm =
     capacity_post_init
       \<lparr>input_capacity_factor_estimate = cf, IronWinCapacityModelConfig.feedstocks = fs, hydrogen_amount_kgpy = hy,
        desired_iron_win_mtpy = de, performance_model = pm\<rparr>"

definition IronOreCapacityModelConfig_init ::
  "real \<Rightarrow> Feedstocks \<Rightarrow> real option \<Rightarrow> real option \<Rightarrow> pyval \<Rightarrow> error + IronWinCapacityModelConfig" where
  "IronOreCapacityModelConfig_init = IronWinCapacityModelConfig_init"

text \<open>
  The placeholder branch of \<^verbatim>\<open>run_size_iron_win_plant_capacity\<close>: two \<^verbatim>\<open>if\<close>
  statements in sequence (not \<^verbatim>\<open>elif\<close>), each assigning both local variables; a
  float division by zero raises; returning reads both locals, which raises
  \<open>UnboundLocalError\<close> when neither statement ran.
\<close>

definition supply_branch ::
  "IronWinCapacityModelConfig \<Rightarrow> error + (real option \<times> real option)" where
  "supply_branch c =
     (case hydrogen_amount_kgpy c of
        None \<Rightarrow> Inr (None, None)
      | Some s \<Rightarrow>
          if s = 0 then Inr (None, None)
          else if hydrogen_consumption (IronWinCapacityModelConfig.feedstocks c) = 0 then Inl ZeroDivisionError
          else Inr (Some (s / 1000 / hydrogen_consumption (IronWinCapacityModelConfig.feedstocks c)
                            * input_capacity_factor_estimate c),
                    Some s))"

definition demand_branch ::
  "IronWinCapacityModelConfig \<Rightarrow> real option \<times> real option \<Rightarrow> error + (real option \<times> real option)" where
  "demand_branch c locals =
     (case desired_iron_win_mtpy c of
        None \<Rightarrow> Inr locals
      | Some d \<Rightarrow>
          if d = 0 then Inr locals
          else if input_capacity_factor_estimate c = 0 then Inl ZeroDivisionError
          else Inr (Some (d / input_capacity_factor_estimate c),
                    Some (d * 1000 * hydrogen_consumption (IronWinCapacityModelConfig.feedstocks c)
                            / input_capacity_factor_estimate c)))"

definition size_placeholder :: "IronWinCapacityModelConfig \<Rightarrow> error + IronWinCapacityModelOutputs" where
  "size_placeholder c =
     (case supply_branch c of
        Inl e \<Rightarrow> Inl e
      | Inr locals \<Rightarrow>
          (case demand_branch c locals of
             Inl e \<Rightarrow> Inl e
           | Inr (Some cap, Some hy) \<Rightarrow>
               Inr \<lparr>iron_win_plant_capacity_mtpy = cap, out_hydrogen_amount_kgpy = hy\<rparr>
           | Inr _ \<Rightarrow> Inl UnboundLocalError))"

text \<open>
  The registry \<^verbatim>\<open>model_locs\<close> is read from \<^verbatim>\<open>model_locations.yaml\<close>, which is not
  part of the sources at hand: it is a parameter, a table
  \<open>kind \<rightarrow> model name \<rightarrow> entry \<rightarrow> path\<close> with strings as keys and paths. A model
  name that is not a string finds no entry; an unhashable one (a dictionary, an attrs
  object) raises \<open>TypeError\<close>.
\<close>

type_synonym registry = "(string \<times> (string \<times> (string \<times> string) list) list) list"

fun registry_lookup :: "registry \<Rightarrow> string \<Rightarrow> pyval \<Rightarrow> string \<Rightarrow> error + string" where
  "registry_lookup reg kind (PStr name) entry =
     (case map_of reg kind of
        None \<Rightarrow> Inl (KeyError kind)
      | Some models \<Rightarrow>
          (case map_of models name of
             None \<Rightarrow> Inl (KeyError name)
           | Some paths \<Rightarrow>
               (case map_of paths entry of
                  None \<Rightarrow> Inl (KeyError entry)
                | Some p \<Rightarrow> Inr p)))"
| "registry_lookup reg kind (PRef a) entry =
     (case map_of reg kind of None \<Rightarrow> Inl (KeyError kind) | Some models \<Rightarrow> Inl TypeError)"
| "registry_lookup reg kind v entry =
     (case map_of reg kind of None \<Rightarrow> Inl (KeyError kind) | Some models \<Rightarrow> Inl (KeyError []))"

text \<open>
  One of the three statements
  \<^verbatim>\<open>if model['x_fp'] == '': model['x_fp'] = model_locs[kind][name][x]\<close>.
\<close>

definition patch_path ::
  "registry \<Rightarrow> string \<Rightarrow> pyval \<Rightarrow> pyval \<Rightarrow> string \<Rightarrow> string \<Rightarrow> heap \<Rightarrow> error + heap" where
  "patch_path reg kind model name key entry h =
     (case subscript h model key of
        Inl e \<Rightarrow> Inl e
      | Inr v \<Rightarrow>
          if v = PStr [] then
            (case registry_lookup reg kind name entry of
               Inl e \<Rightarrow> Inl e
             | Inr p \<Rightarrow> setitem h model key (PStr p))
          else Inr h)"

definition patch_paths :: "registry \<Rightarrow> string \<Rightarrow> pyval \<Rightarrow> pyval \<Rightarrow> heap \<Rightarrow> error + heap" where
  "patch_paths reg kind model name h =
     (case patch_path reg kind model name ''model_fp'' ''model'' h of
        Inl e \<Rightarrow> Inl e
      | Inr h1 \<Rightarrow>
          (case patch_path reg kind model name ''inputs_fp'' ''inputs'' h1 of
             Inl e \<Rightarrow> Inl e
           | Inr h2 \<Rightarrow> patch_path reg kind model name ''coeffs_fp'' ''coeffs'' h2))"

text \<open>
  \<^verbatim>\<open>run_size_iron_win_plant_capacity\<close>. The external performance model
  (\<^verbatim>\<open>importlib.import_module(...).main(config)\<close>) is code outside the repository: it is
  the parameter \<open>perf_main\<close>, given the module path, the store and the configuration,
  and taken to read the store only. The result is the returned value or the raised
  error, together with the store the call leaves behind.
\<close>

definition run_size_iron_win_plant_capacity ::
  "registry \<Rightarrow> (pyval \<Rightarrow> heap \<Rightarrow> IronWinCapacityModelConfig \<Rightarrow> error + real \<times> real) \<Rightarrow>
   heap \<Rightarrow> IronWinCapacityModelConfig \<Rightarrow> (error + IronWinCapacityModelOutputs) \<times> heap" where
  "run_size_iron_win_plant_capacity model_locs perf_main h config =
     (case subscript h (performance_model config) ''name'' of
        Inl e \<Rightarrow> (Inl e, h)
      | Inr name \<Rightarrow>
          if name = PStr ''placeholder'' then (size_placeholder config, h)
          else
            (case patch_paths model_locs ''performance'' (performance_model config) name h of
               Inl e \<Rightarrow> (Inl e, h)
             | Inr h' \<Rightarrow>
                 (case subscript h' (performance_model config) ''model_fp'' of
                    Inl e \<Rightarrow> (Inl e, h')
                  | Inr fp \<Rightarrow>
                      (case perf_main fp h' config of
                         Inl e \<Rightarrow> (Inl e, h')
                       | Inr (cap, hy) \<Rightarrow>
                           (Inr \<lparr>iron_win_plant_capacity_mtpy = cap,
                                 out_hydrogen_amount_kgpy = hy\<rparr>, h')))))"

text \<open>\<^verbatim>\<open>run_iron_win_model\<close>.\<close>

definition run_iron_win_model :: "real \<Rightarrow> real \<Rightarrow> real" where
  "run_iron_win_model capacity_mtpy capacity_factor = capacity_mtpy * capacity_factor"

section \<open>Cost estimation\<close>

definition model_year_CEPCI :: real where
  "model_year_CEPCI = 596.2"

definition equation_year_CEPCI :: real where
  "equation_year_CEPCI = 708.8"

text \<open>
  \<^verbatim>\<open>feedstocks.natural_gas_prices[str(config.operational_year)]\<close>, as a factor of a
  float product: a missing year raises \<open>KeyError\<close>, a price that is not a number
  raises \<open>TypeError\<close>.
\<close>

definition natural_gas_price :: "heap \<Rightarrow> Feedstocks \<Rightarrow> int \<Rightarrow> error + real" where
  "natural_gas_price h fs year =
     (case subscript h (natural_gas_prices fs) (str_int year) of
        Inl e \<Rightarrow> Inl e
      | Inr v \<Rightarrow> (case py_float_of v of None \<Rightarrow> Inl TypeError | Some p \<Rightarrow> Inr p))"

text \<open>
  The placeholder branch of \<^verbatim>\<open>run_iron_win_cost_model\<close>, statement by statement.
  \<open>x ** e\<close> with a fractional \<open>e\<close> is \<open>x powr e\<close> for \<open>x \<ge> 0\<close>; for a negative
  capacity Python continues with complex numbers (see \<open>ComplexResult\<close>).
\<close>

definition cost_placeholder :: "heap \<Rightarrow> IronWinCostModelConfig \<Rightarrow> error + IronWinCostModelOutputs" where
  "cost_placeholder h config =
    (if plant_capacity_mtpy config < 0 then Inl ComplexResult
     else
      let fs = IronWinCostModelConfig.feedstocks config;
          cap = plant_capacity_mtpy config;
          eaf_casting = model_year_CEPCI / equation_year_CEPCI * 352191.5237 * cap powr 0.456;
          shaft_furnace = model_year_CEPCI / equation_year_CEPCI * 489.68061 * cap powr 0.88741;
          oxygen_supply = model_year_CEPCI / equation_year_CEPCI * 1715.21508 * cap powr 0.64574;
          h2_preheating =
            (if o2_heat_integration config
             then model_year_CEPCI / equation_year_CEPCI * (1 - 0.4) * (45.69123 * cap powr 0.86564)
             else model_year_CEPCI / equation_year_CEPCI * 45.69123 * cap powr 0.86564);
          cooling_tower =
            (if o2_heat_integration config
             then model_year_CEPCI / equation_year_CEPCI * (1 - 0.3) * (2513.08314 * cap powr 0.63325)
             else model_year_CEPCI / equation_year_CEPCI * 2513.08314 * cap powr 0.63325);
          piping = model_year_CEPCI / equation_year_CEPCI * 11815.72718 * cap powr 0.59983;
          elec_instr = model_year_CEPCI / equation_year_CEPCI * 7877.15146 * cap powr 0.59983;
          buildings_storage_water =
            model_year_CEPCI / equation_year_CEPCI * 1097.81876 * cap powr 0.8;
          misc = IronWinCostModelConfig.capex_misc config;
          tpc = eaf_casting + shaft_furnace + oxygen_supply + h2_preheating + cooling_tower
                + piping + elec_instr + buildings_storage_water + misc;
          annual_operation =
            69375996.9 * ((cap / 365 * 1000) powr 0.25242) / ((1162077 / 365 * 1000) powr 0.25242);
          maintenance = 0.00863 * tpc;
          admin_support = 0.25 * (annual_operation + maintenance);
          tax_insurance = 0.02 * tpc;
          fixed_operating = annual_operation + maintenance + admin_support + tax_insurance;
          fivemonth = 5 / 12 * (annual_operation + maintenance + admin_support);
          maintenance_materials = maintenance_materials_unitcost fs * cap / 12;
          non_fuel_consumables =
            cap * (raw_water_consumption fs * raw_water_unitcost fs
                   + lime_consumption fs * lime_unitcost fs
                   + carbon_consumption fs * carbon_unitcost fs
                   + iron_ore_consumption fs * iron_ore_pellet_unitcost fs) / 12;
          waste_disposal = cap * slag_disposal_unitcost fs * slag_production fs / 12
      in
       (case natural_gas_price h fs (operational_year config) of
          Inl e \<Rightarrow> Inl e
        | Inr gas_price \<Rightarrow>
           let energy =
                 cap * (hydrogen_consumption fs * lcoh config * 1000
                        + natural_gas_consumption fs * gas_price
                        + electricity_consumption fs * electricity_cost fs) / 12;
               two_percent_tpc = 0.02 * tpc;
               fuel_consumables_60day_supply_cost =
                 cap * (raw_water_consumption fs * raw_water_unitcost fs
                        + lime_consumption fs * lime_unitcost fs
                        + carbon_consumption fs * carbon_unitcost fs
                        + iron_ore_consumption fs * iron_ore_pellet_unitcost fs) / 365 * 60;
               spare_parts = 0.005 * tpc;
               land = 0.775 * cap;
               misc_owners = 0.15 * tpc;
               installation = fivemonth + two_percent_tpc + fuel_consumables_60day_supply_cost
                              + spare_parts + misc_owners
           in Inr \<lparr>capex_eaf_casting = eaf_casting,
                   capex_shaft_furnace = shaft_furnace,
                   capex_oxygen_supply = oxygen_supply,
                   capex_h2_preheating = h2_preheating,
                   capex_cooling_tower = cooling_tower,
                   capex_piping = piping,
                   capex_elec_instr = elec_instr,
                   capex_buildings_storage_water = buildings_storage_water,
                   IronWinCosts.capex_misc = misc,
                   labor_cost_annual_operation = annual_operation,
                   labor_cost_maintenance = maintenance,
                   labor_cost_admin_support = admin_support,
                   property_tax_insurance = tax_insurance,
                   land_cost = land,
                   installation_cost = installation,
                   total_plant_cost = tpc,
                   total_fixed_operating_cost = fixed_operating,
                   labor_cost_fivemonth = fivemonth,
                   maintenance_materials_onemonth = maintenance_materials,
                   non_fuel_consumables_onemonth = non_fuel_consumables,
                   waste_disposal_onemonth = waste_disposal,
                   monthly_energy_cost = energy,
                   spare_parts_cost = spare_parts,
                   misc_owners_costs = misc_owners\<rparr>))"

text \<open>
  \<^verbatim>\<open>run_iron_win_cost_model\<close> (and, under renaming, \<^verbatim>\<open>run_iron_ore_cost_model\<close>). The
  external cost model is the parameter \<open>cost_main\<close>; its positional result is taken as
  the record it is unpacked into.
\<close>

definition run_iron_win_cost_model ::
  "registry \<Rightarrow> (pyval \<Rightarrow> heap \<Rightarrow> IronWinCostModelConfig \<Rightarrow> error + IronWinCostModelOutputs) \<Rightarrow>
   heap \<Rightarrow> IronWinCostModelConfig \<Rightarrow> (error + IronWinCostModelOutputs) \<times> heap" where
  "run_iron_win_cost_model model_locs cost_main h config =
     (case subscript h (cost_model config) ''name'' of
        Inl e \<Rightarrow> (Inl e, h)
      | Inr name \<Rightarrow>
          if name = PStr ''placeholder'' then (cost_placeholder h config, h)
          else
            (case patch_paths model_locs ''cost'' (cost_model config) name h of
               Inl e \<Rightarrow> (Inl e, h)
             | Inr h' \<Rightarrow>
                 (case subscript h' (cost_model config) ''model_fp'' of
                    Inl e \<Rightarrow> (Inl e, h')
                  | Inr fp \<Rightarrow>
                      (case cost_main fp h' config of
                         Inl e \<Rightarrow> (Inl e, h')
                       | Inr out \<Rightarrow> (Inr out, h')))))"

definition run_iron_ore_cost_model ::
  "registry \<Rightarrow> (pyval \<Rightarrow> heap \<Rightarrow> IronWinCostModelConfig \<Rightarrow> error + IronWinCostModelOutputs) \<Rightarrow>
   heap \<Rightarrow> IronWinCostModelConfig \<Rightarrow> (error + IronWinCostModelOutputs) \<times> heap" where
  "run_iron_ore_cost_model = run_iron_win_cost_model"

section \<open>Finance stage\<close>

text \<open>
  Every statement of \<^verbatim>\<open>run_iron_win_finance_model\<close> reads the configuration and calls
  the ProFAST object, or writes plots to the file system; none assigns to the
  configuration or to a dictionary. ProFAST is outside the repository: the parameter
  \<open>profast\<close> stands for the solver run on the assembled inputs, with a result of any
  type \<open>'f\<close> (the solution, the summary and the price breakdown).
\<close>

definition run_iron_win_finance_model ::
  "(heap \<Rightarrow> IronWinFinanceModelConfig \<Rightarrow> error + 'f) \<Rightarrow> heap \<Rightarrow> IronWinFinanceModelConfig \<Rightarrow>
   (error + 'f) \<times> heap" where
  "run_iron_win_finance_model profast h config = (profast h config, h)"

section \<open>Library operations on the store\<close>

text \<open>
  \<^verbatim>\<open>copy.deepcopy\<close>: an atomic value is returned as it is; an object already copied is
  taken from the memo; otherwise the copy is allocated and entered in the memo first
  and then filled (a dictionary entry by entry; an attrs object, created without its
  attributes, once its state has been copied). The first argument bounds the nesting
  depth, beyond which Python raises \<open>RecursionError\<close>.
\<close>

type_synonym memo = "(addr \<times> addr) list"

fun deepcopy :: "nat \<Rightarrow> pyval \<Rightarrow> memo \<times> heap \<Rightarrow> (error + pyval) \<times> (memo \<times> heap)"
and copy_items :: "nat \<Rightarrow> addr \<Rightarrow> pydict \<Rightarrow> memo \<times> heap \<Rightarrow> (error + unit) \<times> (memo \<times> heap)"
where
  "deepcopy n (PRef a) (m, h) =
     (case map_of m a of
        Some b \<Rightarrow> (Inr (PRef b), (m, h))
      | None \<Rightarrow>
          if length h \<le> a then (Inl InvalidRef, (m, h))
          else
            (case n of
               0 \<Rightarrow> (Inl RecursionError, (m, h))
             | Suc n' \<Rightarrow>
                 (case h ! a of
                    ODict d \<Rightarrow>
                      (case copy_items n' (length h) d ((a, length h) # m, h @ [ODict []]) of
                         (Inl e, s) \<Rightarrow> (Inl e, s)
                       | (Inr u, s) \<Rightarrow> (Inr (PRef (length h)), s))
                  | OFeedstocks f \<Rightarrow>
                      (case deepcopy n' (natural_gas_prices f)
                              ((a, length h) # m,
                               h @ [OFeedstocks (f\<lparr>natural_gas_prices := PNone\<rparr>)]) of
                         (Inl e, s) \<Rightarrow> (Inl e, s)
                       | (Inr p, (m', h')) \<Rightarrow>
                           (Inr (PRef (length h)),
                            (m', h'[length h := OFeedstocks (f\<lparr>natural_gas_prices := p\<rparr>)]))))))"
| "deepcopy n PNone s = (Inr PNone, s)"
| "deepcopy n (PBool b) s = (Inr (PBool b), s)"
| "deepcopy n (PInt i) s = (Inr (PInt i), s)"
| "deepcopy n (PFloat x) s = (Inr (PFloat x), s)"
| "deepcopy n (PStr t) s = (Inr (PStr t), s)"
| "copy_items n b [] s = (Inr (), s)"
| "copy_items n b ((k, v) # d) s =
     (case deepcopy n v s of
        (Inl e, s') \<Rightarrow> (Inl e, s')
      | (Inr v', (m', h')) \<Rightarrow>
          (case setitem h' (PRef b) k v' of
             Inl e \<Rightarrow> (Inl e, (m', h'))
           | Inr h'' \<Rightarrow> copy_items n b d (m', h'')))"

text \<open>
  \<^verbatim>\<open>==\<close>. Numbers compare by value across \<open>bool\<close>, \<open>int\<close> and \<open>float\<close>;
  dictionaries compare by length and then entry by entry; attrs objects compare their
  fields in order; anything else is unequal.
\<close>

definition atom_eq :: "pyval \<Rightarrow> pyval \<Rightarrow> bool" where
  "atom_eq x y =
     (case (py_float_of x, py_float_of y) of
        (Some a, Some b) \<Rightarrow> a = b
      | (None, None) \<Rightarrow> x = y
      | _ \<Rightarrow> False)"

fun py_eq :: "nat \<Rightarrow> heap \<Rightarrow> pyval \<Rightarrow> pyval \<Rightarrow> error + bool"
and dict_eq :: "nat \<Rightarrow> heap \<Rightarrow> pydict \<Rightarrow> pydict \<Rightarrow> error + bool"
where
  "py_eq n h (PRef a) (PRef b) =
     (if length h \<le> a \<or> length h \<le> b then Inl InvalidRef
      else if a = b then Inr True
      else
        (case (h ! a, h ! b) of
           (ODict d1, ODict d2) \<Rightarrow>
             if length d1 \<noteq> length d2 then Inr False
             else (case n of 0 \<Rightarrow> Inl RecursionError | Suc n' \<Rightarrow> dict_eq n' h d1 d2)
         | (OFeedstocks f1, OFeedstocks f2) \<Rightarrow>
             (case n of
                0 \<Rightarrow> Inl RecursionError
              | Suc n' \<Rightarrow>
                  (case py_eq n' h (natural_gas_prices f1) (natural_gas_prices f2) of
                     Inl e \<Rightarrow> Inl e
                   | Inr same \<Rightarrow>
                       Inr (same \<and> f1\<lparr>natural_gas_prices := PNone\<rparr>
                                    = f2\<lparr>natural_gas_prices := PNone\<rparr>)))
         | _ \<Rightarrow> Inr False))"
| "py_eq n h (PRef a) y = Inr False"
| "py_eq n h x (PRef b) = Inr False"
| "py_eq n h x y = Inr (atom_eq x y)"
| "dict_eq n h [] d2 = Inr True"
| "dict_eq n h ((k, v) # d1) d2 =
     (case map_of d2 k of
        None \<Rightarrow> Inr False
      | Some v' \<Rightarrow>
          (case py_eq n h v v' of
             Inl e \<Rightarrow> Inl e
           | Inr same \<Rightarrow> if same then dict_eq n h d1 d2 else Inr False))"

section \<open>Building the typed objects from keyword dictionaries\<close>

text \<open>
  \<^verbatim>\<open>Cls(**d)\<close>: the argument must be a dictionary; a key that is no attribute (or that
  repeats an explicit keyword) and a missing required attribute raise \<open>TypeError\<close>.
  The records are typed as the classes are annotated. attrs does not check the
  annotations, and Python would fail at the first arithmetic use of an ill-typed
  attribute; the model reports such a value as \<open>TypeError\<close> where the object is built.
\<close>

fun kwargs_of :: "heap \<Rightarrow> pyval \<Rightarrow> error + pydict" where
  "kwargs_of h (PRef a) =
     (if a < length h then
        (case h ! a of ODict d \<Rightarrow> Inr d | OFeedstocks f \<Rightarrow> Inl TypeError)
      else Inl InvalidRef)"
| "kwargs_of h v = Inl TypeError"

definition is_float :: "pyval \<Rightarrow> bool" where
  "is_float v = (py_float_of v \<noteq> None)"

definition is_opt_float :: "pyval \<Rightarrow> bool" where
  "is_opt_float v = (v = PNone \<or> is_float v)"

fun is_int :: "pyval \<Rightarrow> bool" where
  "is_int (PInt i) = True"
| "is_int v = False"

fun is_bool :: "pyval \<Rightarrow> bool" where
  "is_bool (PBool b) = True"
| "is_bool v = False"

fun is_feedstocks :: "heap \<Rightarrow> pyval \<Rightarrow> bool" where
  "is_feedstocks h (PRef a) =
     (a < length h \<and> (case h ! a of OFeedstocks f \<Rightarrow> True | ODict d \<Rightarrow> False))"
| "is_feedstocks h v = False"

text \<open>Reading a checked keyword, with the default of the class for an absent one.\<close>

definition kw_float :: "pydict \<Rightarrow> string \<Rightarrow> real \<Rightarrow> real" where
  "kw_float d k dflt =
     (case map_of d k of
        None \<Rightarrow> dflt
      | Some v \<Rightarrow> (case py_float_of v of None \<Rightarrow> dflt | Some x \<Rightarrow> x))"

definition kw_opt_float :: "pydict \<Rightarrow> string \<Rightarrow> real option" where
  "kw_opt_float d k = (case map_of d k of None \<Rightarrow> None | Some v \<Rightarrow> py_float_of v)"

definition kw_int :: "pydict \<Rightarrow> string \<Rightarrow> int \<Rightarrow> int" where
  "kw_int d k dflt = (case map_of d k of Some (PInt i) \<Rightarrow> i | _ \<Rightarrow> dflt)"

definition kw_bool :: "pydict \<Rightarrow> string \<Rightarrow> bool \<Rightarrow> bool" where
  "kw_bool d k dflt = (case map_of d k of Some (PBool b) \<Rightarrow> b | _ \<Rightarrow> dflt)"

definition kw_any :: "pydict \<Rightarrow> string \<Rightarrow> pyval \<Rightarrow> pyval" where
  "kw_any d k dflt = (case map_of d k of Some v \<Rightarrow> v | None \<Rightarrow> dflt)"

definition kw_feedstocks :: "heap \<Rightarrow> pydict \<Rightarrow> string \<Rightarrow> Feedstocks option" where
  "kw_feedstocks h d k =
     (case map_of d k of
        Some (PRef a) \<Rightarrow>
          (if a < length h then
             (case h ! a of OFeedstocks f \<Rightarrow> Some f | ODict d' \<Rightarrow> None)
           else None)
      | _ \<Rightarrow> None)"

definition has_keys :: "pydict \<Rightarrow> string list \<Rightarrow> bool" where
  "has_keys d ks = list_all (\<lambda>k. map_of d k \<noteq> None) ks"

definition feedstocks_float_fields :: "string list" where
  "feedstocks_float_fields =
     [''excess_oxygen'', ''lime_unitcost'', ''carbon_unitcost'', ''electricity_cost'',
      ''iron_ore_pellet_unitcost'', ''oxygen_market_price'', ''raw_water_unitcost'',
      ''iron_ore_consumption'', ''raw_water_consumption'', ''lime_consumption'',
      ''carbon_consumption'', ''hydrogen_consumption'', ''natural_gas_consumption'',
      ''electricity_consumption'', ''slag_disposal_unitcost'', ''slag_production'',
      ''maintenance_materials_unitcost'']"

text \<open>
  \<^verbatim>\<open>Feedstocks(**d)\<close>: the attributes, each from its keyword or else the default
  of the class; then the constructor with its checks.
\<close>

definition feedstocks_of_kwargs :: "pydict \<Rightarrow> pyval \<Rightarrow> Feedstocks" where
  "feedstocks_of_kwargs d prices =
     \<lparr>natural_gas_prices = prices,
      excess_oxygen = kw_float d ''excess_oxygen'' 395,
      lime_unitcost = kw_float d ''lime_unitcost'' 122.1,
      carbon_unitcost = kw_float d ''carbon_unitcost'' 236.97,
      electricity_cost = kw_float d ''electricity_cost'' 48.92,
      iron_ore_pellet_unitcost = kw_float d ''iron_ore_pellet_unitcost'' 207.35,
      oxygen_market_price = kw_float d ''oxygen_market_price'' 0.03,
      raw_water_unitcost = kw_float d ''raw_water_unitcost'' 0.59289,
      iron_ore_consumption = kw_float d ''iron_ore_consumption'' 1.62927,
      raw_water_consumption = kw_float d ''raw_water_consumption'' 0.80367,
      lime_consumption = kw_float d ''lime_consumption'' 0.01812,
      carbon_consumption = kw_float d ''carbon_consumption'' 0.0538,
      hydrogen_consumption = kw_float d ''hydrogen_consumption'' 0.06596,
      natural_gas_consumption = kw_float d ''natural_gas_consumption'' 0.71657,
      electricity_consumption = kw_float d ''electricity_consumption'' 0.5502,
      slag_disposal_unitcost = kw_float d ''slag_disposal_unitcost'' 37.63,
      slag_production = kw_float d ''slag_production'' 0.17433,
      maintenance_materials_unitcost = kw_float d ''maintenance_materials_unitcost'' 7.72\<rparr>"

definition Feedstocks_init :: "heap \<Rightarrow> pyval \<Rightarrow> error + Feedstocks" where
  "Feedstocks_init h kw =
     (case kwargs_of h kw of
        Inl e \<Rightarrow> Inl e
      | Inr d \<Rightarrow>
          if \<not> list_all (\<lambda>(k, v). k = ''natural_gas_prices''
                                  \<or> (List.member feedstocks_float_fields k \<and> is_float v)) d
            then Inl TypeError
          else
            (case map_of d ''natural_gas_prices'' of
               None \<Rightarrow> Inl TypeError
             | Some prices \<Rightarrow> Inr (feedstocks_of_kwargs d prices)))"

definition desired_key :: "technology \<Rightarrow> string" where
  "desired_key t = (case t of IronWin \<Rightarrow> ''desired_iron_win_mtpy'' | IronOre \<Rightarrow> ''desired_iron_ore_mtpy'')"

text \<open>
  \<^verbatim>\<open>IronWinCapacityModelConfig(feedstocks=feedstocks, **iron_win_capacity)\<close>: the
  keywords are checked, then \<^verbatim>\<open>__attrs_post_init__\<close> runs.
\<close>

definition capacity_config_of_kwargs ::
  "technology \<Rightarrow> heap \<Rightarrow> Feedstocks \<Rightarrow> pyval \<Rightarrow> error + IronWinCapacityModelConfig" where
  "capacity_config_of_kwargs t h fs kw =
     (case kwargs_of h kw of
        Inl e \<Rightarrow> Inl e
      | Inr d \<Rightarrow>
          if \<not> list_all (\<lambda>(k, v). (k = ''input_capacity_factor_estimate'' \<and> is_float v)
                                  \<or> (k = ''hydrogen_amount_kgpy'' \<and> is_opt_float v)
                                  \<or> (k = desired_key t \<and> is_opt_float v)
                                  \<or> k = ''performance_model'') d
            then Inl TypeError
          else if \<not> has_keys d [''input_capacity_factor_estimate''] then Inl TypeError
          else
            IronWinCapacityModelConfig_init
              (kw_float d ''input_capacity_factor_estimate'' 0) fs
              (kw_opt_float d ''hydrogen_amount_kgpy'') (kw_opt_float d (desired_key t))
              (kw_any d ''performance_model'' PNone))"

text \<open>
  \<^verbatim>\<open>IronWinCostModelConfig(plant_capacity_mtpy=..., **iron_win_costs)\<close>.
\<close>

definition cost_config_of_kwargs ::
  "heap \<Rightarrow> real \<Rightarrow> pyval \<Rightarrow> error + IronWinCostModelConfig" where
  "cost_config_of_kwargs h capacity kw =
     (case kwargs_of h kw of
        Inl e \<Rightarrow> Inl e
      | Inr d \<Rightarrow>
          if \<not> list_all (\<lambda>(k, v). (k = ''operational_year'' \<and> is_int v)
                                  \<or> (List.member [''lcoh'', ''capex_misc'', ''co2_fuel_emissions'',
                                        ''co2_carbon_emissions'', ''surface_water_discharge''] k
                                      \<and> is_float v)
                                  \<or> (k = ''feedstocks'' \<and> is_feedstocks h v)
                                  \<or> (k = ''o2_heat_integration'' \<and> is_bool v)
                                  \<or> k = ''cost_model'') d
            then Inl TypeError
          else if \<not> has_keys d [''operational_year'', ''lcoh'', ''capex_misc'', ''feedstocks'']
            then Inl TypeError
          else
            (case kw_feedstocks h d ''feedstocks'' of
               None \<Rightarrow> Inl TypeError
             | Some fs \<Rightarrow>
                 Inr \<lparr>operational_year = kw_int d ''operational_year'' 0,
                      plant_capacity_mtpy = capacity,
                      lcoh = kw_float d ''lcoh'' 0,
                      capex_misc = kw_float d ''capex_misc'' 0,
                      feedstocks = fs,
                      o2_heat_integration = kw_bool d ''o2_heat_integration'' True,
                      co2_fuel_emissions = kw_float d ''co2_fuel_emissions'' 0.03929,
                      co2_carbon_emissions = kw_float d ''co2_carbon_emissions'' 0.17466,
                      surface_water_discharge = kw_float d ''surface_water_discharge'' 0.42113,
                      cost_model = kw_any d ''cost_model'' PNone\<rparr>))"

text \<open>
  \<^verbatim>\<open>IronWinFinanceModelConfig(..., **iron_win_finance)\<close>. An absent
  \<open>financial_assumptions\<close> is a new empty dictionary (\<^verbatim>\<open>Factory(dict)\<close>), allocated in
  the store.
\<close>

definition finance_config_of_kwargs ::
  "heap \<Rightarrow> real \<Rightarrow> real \<Rightarrow> real \<Rightarrow> IronWinCostModelOutputs \<Rightarrow> bool \<Rightarrow> bool \<Rightarrow> string \<Rightarrow> int \<Rightarrow>
   pyval \<Rightarrow> (error + IronWinFinanceModelConfig) \<times> heap" where
  "finance_config_of_kwargs h capacity factor production cost_outputs
       show_plots_arg save_plots_arg output_dir_arg scenario kw =
     (case kwargs_of h kw of
        Inl e \<Rightarrow> (Inl e, h)
      | Inr d \<Rightarrow>
          if \<not> list_all (\<lambda>(k, v). (List.member [''plant_life'', ''install_years''] k \<and> is_int v)
                                  \<or> (List.member [''lcoh'', ''gen_inflation''] k \<and> is_float v)
                                  \<or> (k = ''feedstocks'' \<and> is_feedstocks h v)
                                  \<or> (k = ''o2_heat_integration'' \<and> is_bool v)
                                  \<or> k = ''grid_prices'' \<or> k = ''financial_assumptions'') d
            then (Inl TypeError, h)
          else if \<not> has_keys d [''plant_life'', ''lcoh'', ''grid_prices'', ''feedstocks'']
            then (Inl TypeError, h)
          else
            (case kw_feedstocks h d ''feedstocks'' of
               None \<Rightarrow> (Inl TypeError, h)
             | Some fs \<Rightarrow>
                 let (assumptions, h') =
                       (case map_of d ''financial_assumptions'' of
                          Some v \<Rightarrow> (v, h)
                        | None \<Rightarrow> (PRef (length h), h @ [ODict []]))
                 in (Inr \<lparr>plant_life = kw_int d ''plant_life'' 0,
                          IronWinFinanceModelConfig.plant_capacity_mtpy = capacity,
                          plant_capacity_factor = factor,
                          iron_win_production_mtpy = production,
                          IronWinFinanceModelConfig.lcoh = kw_float d ''lcoh'' 0,
                          grid_prices = kw_any d ''grid_prices'' PNone,
                          IronWinFinanceModelConfig.feedstocks = fs,
                          costs = cost_outputs,
                          IronWinFinanceModelConfig.o2_heat_integration = kw_bool d ''o2_heat_integration'' True,
                          financial_assumptions = assumptions,
                          install_years = kw_int d ''install_years'' 3,
                          gen_inflation = kw_float d ''gen_inflation'' 0,
                          save_plots = save_plots_arg,
                          show_plots = show_plots_arg,
                          output_dir = output_dir_arg,
                          design_scenario_id = scenario\<rparr>, h')))"

section \<open>Orchestration\<close>

text \<open>
  What lies outside the repository is gathered in one record: the registry, the
  external performance and cost models, the finance solver and the depth at which
  Python gives up a recursion.
\<close>

record 'f environment =
  model_locs :: registry
  perf_main :: "pyval \<Rightarrow> heap \<Rightarrow> IronWinCapacityModelConfig \<Rightarrow> error + real \<times> real"
  cost_main :: "pyval \<Rightarrow> heap \<Rightarrow> IronWinCostModelConfig \<Rightarrow> error + IronWinCostModelOutputs"
  profast :: "heap \<Rightarrow> IronWinFinanceModelConfig \<Rightarrow> error + 'f"
  recursion_limit :: nat

text \<open>
  The stages are logged as they begin, a stage beginning when its configuration object
  is built: the log is the only addition to the source, and it lets a theorem say what
  ran before an error.
\<close>

datatype stage = CapacityStage | CostStage | FinanceStage

text \<open>
  \<^verbatim>\<open>if iron_win_config["costs"]["lcoh"] != iron_win_config["finances"]["lcoh"]: raise ValueError(...)\<close>
\<close>

definition lcoh_gate :: "nat \<Rightarrow> heap \<Rightarrow> pyval \<Rightarrow> error + unit" where
  "lcoh_gate limit h iron_win_config =
     (case subscript h iron_win_config ''costs'' of
        Inl e \<Rightarrow> Inl e
      | Inr cs \<Rightarrow>
     (case subscript h cs ''lcoh'' of
        Inl e \<Rightarrow> Inl e
      | Inr cost_lcoh \<Rightarrow>
     (case subscript h iron_win_config ''finances'' of
        Inl e \<Rightarrow> Inl e
      | Inr fin \<Rightarrow>
     (case subscript h fin ''lcoh'' of
        Inl e \<Rightarrow> Inl e
      | Inr finance_lcoh \<Rightarrow>
     (case py_eq limit h cost_lcoh finance_lcoh of
        Inl e \<Rightarrow> Inl e
      | Inr same \<Rightarrow> if same then Inr () else Inl (ValueError LcohNotEqual))))))"

text \<open>
  \<^verbatim>\<open>iron_win_costs = iron_win_config["costs"]\<close>,
  \<^verbatim>\<open>iron_win_capacity = iron_win_config["capacity"]\<close>,
  \<^verbatim>\<open>feedstocks = Feedstocks(**iron_win_costs["feedstocks"])\<close>: the new object is
  allocated in the store. The result is the three references and the object's value.
\<close>

definition make_feedstocks ::
  "heap \<Rightarrow> pyval \<Rightarrow> (error + pyval \<times> pyval \<times> pyval \<times> Feedstocks) \<times> heap" where
  "make_feedstocks h iron_win_config =
     (case subscript h iron_win_config ''costs'' of
        Inl e \<Rightarrow> (Inl e, h)
      | Inr iron_win_costs \<Rightarrow>
     (case subscript h iron_win_config ''capacity'' of
        Inl e \<Rightarrow> (Inl e, h)
      | Inr iron_win_capacity \<Rightarrow>
     (case subscript h iron_win_costs ''feedstocks'' of
        Inl e \<Rightarrow> (Inl e, h)
      | Inr kw \<Rightarrow>
     (case Feedstocks_init h kw of
        Inl e \<Rightarrow> (Inl e, h)
      | Inr fs \<Rightarrow>
          (Inr (iron_win_costs, iron_win_capacity, PRef (length h), fs), h @ [OFeedstocks fs])))))"

text \<open>
  The capacity stage: the configuration is built, its \<open>performance_model\<close> attribute
  is assigned, the sizing runs.
\<close>

definition capacity_stage ::
  "technology \<Rightarrow> 'f environment \<Rightarrow> heap \<Rightarrow> pyval \<Rightarrow> Feedstocks \<Rightarrow> pyval \<Rightarrow>
   (error + IronWinCapacityModelConfig \<times> IronWinCapacityModelOutputs) \<times> heap" where
  "capacity_stage t env h iron_win_config fs iron_win_capacity =
     (case capacity_config_of_kwargs t h fs iron_win_capacity of
        Inl e \<Rightarrow> (Inl e, h)
      | Inr c \<Rightarrow>
     (case subscript h iron_win_config ''performance_model'' of
        Inl e \<Rightarrow> (Inl e, h)
      | Inr pm \<Rightarrow>
          let capacity_config = c\<lparr>performance_model := pm\<rparr> in
          (case run_size_iron_win_plant_capacity (model_locs env) (perf_main env) h capacity_config of
             (Inl e, h') \<Rightarrow> (Inl e, h')
           | (Inr sized, h') \<Rightarrow> (Inr (capacity_config, sized), h'))))"

text \<open>
  The cost stage: \<^verbatim>\<open>iron_win_costs["feedstocks"] = feedstocks\<close>, the configuration is
  built with the sized capacity, its \<open>cost_model\<close> attribute is assigned, the cost
  model runs.
\<close>

definition cost_stage ::
  "'f environment \<Rightarrow> heap \<Rightarrow> pyval \<Rightarrow> pyval \<Rightarrow> pyval \<Rightarrow> IronWinCapacityModelOutputs \<Rightarrow>
   (error + IronWinCostModelOutputs) \<times> heap" where
  "cost_stage env h iron_win_config iron_win_costs feedstocks_ref sized =
     (case setitem h iron_win_costs ''feedstocks'' feedstocks_ref of
        Inl e \<Rightarrow> (Inl e, h)
      | Inr h1 \<Rightarrow>
     (case cost_config_of_kwargs h1 (iron_win_plant_capacity_mtpy sized) iron_win_costs of
        Inl e \<Rightarrow> (Inl e, h1)
      | Inr c \<Rightarrow>
     (case subscript h1 iron_win_config ''cost_model'' of
        Inl e \<Rightarrow> (Inl e, h1)
      | Inr cm \<Rightarrow>
          run_iron_win_cost_model (model_locs env) (cost_main env) h1
            (c\<lparr>plant_capacity_mtpy := iron_win_plant_capacity_mtpy sized, cost_model := cm\<rparr>))))"

text \<open>
  The finance stage: \<^verbatim>\<open>iron_win_finance = iron_win_config["finances"]\<close>,
  \<^verbatim>\<open>iron_win_finance["feedstocks"] = feedstocks\<close>, the configuration is built, the
  finance model runs.
\<close>

definition finance_stage ::
  "'f environment \<Rightarrow> bool \<Rightarrow> bool \<Rightarrow> string \<Rightarrow> int \<Rightarrow> heap \<Rightarrow> pyval \<Rightarrow> pyval \<Rightarrow>
   IronWinCapacityModelConfig \<Rightarrow> IronWinCapacityModelOutputs \<Rightarrow> IronWinCostModelOutputs \<Rightarrow>
   (error + 'f) \<times> heap" where
  "finance_stage env save_plots_arg show_plots_arg output_dir_arg scenario h iron_win_config
       feedstocks_ref capacity_config sized iron_win_costs =
     (case subscript h iron_win_config ''finances'' of
        Inl e \<Rightarrow> (Inl e, h)
      | Inr iron_win_finance \<Rightarrow>
     (case setitem h iron_win_finance ''feedstocks'' feedstocks_ref of
        Inl e \<Rightarrow> (Inl e, h)
      | Inr h1 \<Rightarrow>
     (case finance_config_of_kwargs h1
             (iron_win_plant_capacity_mtpy sized)
             (input_capacity_factor_estimate capacity_config)
             (run_iron_win_model (iron_win_plant_capacity_mtpy sized)
                (input_capacity_factor_estimate capacity_config))
             iron_win_costs show_plots_arg save_plots_arg output_dir_arg scenario
             iron_win_finance of
        (Inl e, h2) \<Rightarrow> (Inl e, h2)
      | (Inr c, h2) \<Rightarrow> run_iron_win_finance_model (profast env) h2 c)))"

text \<open>
  \<^verbatim>\<open>run_iron_win_full_model\<close> and \<^verbatim>\<open>run_iron_ore_full_model\<close>: the deep copy, the
  LCOH check, then the three stages. The result is the returned triple or the raised
  error, the store the call leaves behind, and the log of the stages begun.
\<close>

definition run_iron_full_model ::
  "technology \<Rightarrow> 'f environment \<Rightarrow> bool \<Rightarrow> bool \<Rightarrow> string \<Rightarrow> int \<Rightarrow> heap \<Rightarrow> pyval \<Rightarrow>
   (error + IronWinCapacityModelOutputs \<times> IronWinCostModelOutputs \<times> 'f) \<times> heap \<times> stage list" where
  "run_iron_full_model t env save_plots_arg show_plots_arg output_dir_arg scenario h greenheart_config =
     (case subscript h greenheart_config ''iron'' of
        Inl e \<Rightarrow> (Inl e, h, [])
      | Inr iron \<Rightarrow>
     (case deepcopy (recursion_limit env) iron ([], h) of
        (Inl e, (m, h1)) \<Rightarrow> (Inl e, h1, [])
      | (Inr iron_win_config, (m, h1)) \<Rightarrow>
     (case lcoh_gate (recursion_limit env) h1 iron_win_config of
        Inl e \<Rightarrow> (Inl e, h1, [])
      | Inr u \<Rightarrow>
     (case make_feedstocks h1 iron_win_config of
        (Inl e, h2) \<Rightarrow> (Inl e, h2, [])
      | (Inr (iron_win_costs, iron_win_capacity, feedstocks_ref, fs), h2) \<Rightarrow>
     (case capacity_stage t env h2 iron_win_config fs iron_win_capacity of
        (Inl e, h3) \<Rightarrow> (Inl e, h3, [CapacityStage])
      | (Inr (capacity_config, sized), h3) \<Rightarrow>
     (case cost_stage env h3 iron_win_config iron_win_costs feedstocks_ref sized of
        (Inl e, h4) \<Rightarrow> (Inl e, h4, [CapacityStage, CostStage])
      | (Inr cost_outputs, h4) \<Rightarrow>
     (case finance_stage env save_plots_arg show_plots_arg output_dir_arg scenario h4
             iron_win_config feedstocks_ref capacity_config sized cost_outputs of
        (Inl e, h5) \<Rightarrow> (Inl e, h5, [CapacityStage, CostStage, FinanceStage])
      | (Inr finance_outputs, h5) \<Rightarrow>
          (Inr (sized, cost_outputs, finance_outputs), h5,
           [CapacityStage, CostStage, FinanceStage]))))))))"

definition run_iron_win_full_model ::
  "'f environment \<Rightarrow> bool \<Rightarrow> bool \<Rightarrow> string \<Rightarrow> int \<Rightarrow> heap \<Rightarrow> pyval \<Rightarrow>
   (error + IronWinCapacityModelOutputs \<times> IronWinCostModelOutputs \<times> 'f) \<times> heap \<times> stage list" where
  "run_iron_win_full_model = run_iron_full_model IronWin"

definition run_iron_ore_full_model ::
  "'f environment \<Rightarrow> bool \<Rightarrow> bool \<Rightarrow> string \<Rightarrow> int \<Rightarrow> heap \<Rightarrow> pyval \<Rightarrow>
   (error + IronWinCapacityModelOutputs \<times> IronWinCostModelOutputs \<times> 'f) \<times> heap \<times> stage list" where
  "run_iron_ore_full_model = run_iron_full_model IronOre"

section \<open>Regions of the store\<close>






section \<open>Example inputs\<close>

text \<open>
  \<^verbatim>\<open>Feedstocks(natural_gas_prices=prices)\<close>, every other attribute at the default of
  the class.
\<close>

definition default_feedstocks :: "pyval \<Rightarrow> Feedstocks" where
  "default_feedstocks prices =
     \<lparr>natural_gas_prices = prices, excess_oxygen = 395, lime_unitcost = 122.1,
      carbon_unitcost = 236.97, electricity_cost = 48.92, iron_ore_pellet_unitcost = 207.35,
      oxygen_market_price = 0.03, raw_water_unitcost = 0.59289, iron_ore_consumption = 1.62927,
      raw_water_consumption = 0.80367, lime_consumption = 0.01812, carbon_consumption = 0.0538,
      hydrogen_consumption = 0.06596, natural_gas_consumption = 0.71657,
      electricity_consumption = 0.5502, slag_disposal_unitcost = 37.63,
      slag_production = 0.17433, maintenance_materials_unitcost = 7.72\<rparr>"

text \<open>
  A store with a placeholder model descriptor at address 0 and a natural gas price
  table at address 1.
\<close>

definition placeholder_store :: heap where
  "placeholder_store =
     [ODict [(''name'', PStr ''placeholder'')], ODict [(''2035'', PFloat 3.5)]]"

text \<open>
  The scenario of the specification: 100000 tonnes a year, default feedstocks, no
  miscellaneous capital cost; the integration flag is the argument.
\<close>

definition scenario_cost_config :: "bool \<Rightarrow> IronWinCostModelConfig" where
  "scenario_cost_config flag =
     \<lparr>operational_year = 2035, plant_capacity_mtpy = 100000, lcoh = 4, capex_misc = 0,
      feedstocks = default_feedstocks (PRef 1), o2_heat_integration = flag,
      co2_fuel_emissions = 0.03929, co2_carbon_emissions = 0.17466,
      surface_water_discharge = 0.42113, cost_model = PRef 0\<rparr>"

text \<open>Capacity configurations at capacity factor 0.9, as the constructor stores them.\<close>

definition scenario_capacity_config :: "real option \<Rightarrow> real option \<Rightarrow> IronWinCapacityModelConfig" where
  "scenario_capacity_config hydrogen desired =
     \<lparr>input_capacity_factor_estimate = 0.9,
      IronWinCapacityModelConfig.feedstocks = default_feedstocks (PRef 1),
      hydrogen_amount_kgpy = hydrogen, desired_iron_win_mtpy = desired,
      performance_model = PRef 0\<rparr>"



definition example_registry :: registry where
  "example_registry =
     [(''performance'',
       [(''dri'', [(''model'', ''models.dri''), (''inputs'', ''dri_in.csv''),
                   (''coeffs'', ''dri_co.csv'')])])]"

definition constant_perf_main ::
  "pyval \<Rightarrow> heap \<Rightarrow> IronWinCapacityModelConfig \<Rightarrow> error + real \<times> real" where
  "constant_perf_main fp h c = Inr (1, 1)"

definition failing_cost_main ::
  "pyval \<Rightarrow> heap \<Rightarrow> IronWinCostModelConfig \<Rightarrow> error + IronWinCostModelOutputs" where
  "failing_cost_main fp h c = Inl ExternalError"

text \<open>What the placeholder cost model returns for the scenario.\<close>

definition scenario_costs :: "bool \<Rightarrow> IronWinCostModelOutputs" where
  "scenario_costs flag = projr (cost_placeholder placeholder_store (scenario_cost_config flag))"

text \<open>
  Other maintenance material, slag disposal and electricity costs, and the scenario with
  these and another hydrogen price.
\<close>

definition varied_feedstocks :: Feedstocks where
  "varied_feedstocks =
     (default_feedstocks (PRef 1))
       \<lparr>maintenance_materials_unitcost := 9, slag_disposal_unitcost := 40,
        electricity_cost := 60\<rparr>"

definition varied_cost_config :: IronWinCostModelConfig where
  "varied_cost_config =
     (scenario_cost_config True)
       \<lparr>lcoh := 7, operational_year := 2035,
        feedstocks := (feedstocks (scenario_cost_config True))
          \<lparr>natural_gas_prices := natural_gas_prices varied_feedstocks,
           maintenance_materials_unitcost := maintenance_materials_unitcost varied_feedstocks,
           slag_disposal_unitcost := slag_disposal_unitcost varied_feedstocks,
           slag_production := slag_production varied_feedstocks,
           hydrogen_consumption := hydrogen_consumption varied_feedstocks,
           natural_gas_consumption := natural_gas_consumption varied_feedstocks,
           electricity_consumption := electricity_consumption varied_feedstocks,
           electricity_cost := electricity_cost varied_feedstocks\<rparr>\<rparr>"

definition varied_costs :: IronWinCostModelOutputs where
  "varied_costs = projr (cost_placeholder placeholder_store varied_cost_config)"

text \<open>
  A complete configuration: the caller's dictionary at address 0, the \<open>iron\<close>
  dictionary at 1 with its five parts at 2 to 6, the feedstock keywords at 7 and the
  two price tables at 8 and 9. The argument is the LCOH of the finance part; that of
  the cost part is 4.
\<close>

definition greenheart_store :: "real \<Rightarrow> heap" where
  "greenheart_store finance_lcoh =
     [ODict [(''iron'', PRef 1)],
      ODict [(''costs'', PRef 2), (''finances'', PRef 3), (''capacity'', PRef 4),
             (''performance_model'', PRef 5), (''cost_model'', PRef 6)],
      ODict [(''operational_year'', PInt 2035), (''lcoh'', PFloat 4), (''capex_misc'', PInt 0),
             (''feedstocks'', PRef 7), (''o2_heat_integration'', PBool True)],
      ODict [(''plant_life'', PInt 30), (''lcoh'', PFloat finance_lcoh),
             (''grid_prices'', PRef 8)],
      ODict [(''input_capacity_factor_estimate'', PFloat 0.9),
             (''hydrogen_amount_kgpy'', PInt 65960)],
      ODict [(''name'', PStr ''placeholder'')],
      ODict [(''name'', PStr ''placeholder'')],
      ODict [(''natural_gas_prices'', PRef 9)],
      ODict [(''2035'', PFloat 50)],
      ODict [(''2035'', PFloat 3.5)]]"

definition example_profast :: "heap \<Rightarrow> IronWinFinanceModelConfig \<Rightarrow> error + real" where
  "example_profast h c = Inr 1000"

definition example_environment :: "real environment" where
  "example_environment =
     \<lparr>model_locs = example_registry, perf_main = constant_perf_main,
      cost_main = failing_cost_main, profast = example_profast, recursion_limit = 1000\<rparr>"

text \<open>The same objects, copied to the addresses 10 to 18 in the order the copy visits them.\<close>

definition copied_store :: "real \<Rightarrow> heap" where
  "copied_store finance_lcoh =
     greenheart_store finance_lcoh @
     [ODict [(''costs'', PRef 11), (''finances'', PRef 14), (''capacity'', PRef 16),
             (''performance_model'', PRef 17), (''cost_model'', PRef 18)],
      ODict [(''operational_year'', PInt 2035), (''lcoh'', PFloat 4), (''capex_misc'', PInt 0),
             (''feedstocks'', PRef 12), (''o2_heat_integration'', PBool True)],
      ODict [(''natural_gas_prices'', PRef 13)],
      ODict [(''2035'', PFloat 3.5)],
      ODict [(''plant_life'', PInt 30), (''lcoh'', PFloat finance_lcoh),
             (''grid_prices'', PRef 15)],
      ODict [(''2035'', PFloat 50)],
      ODict [(''input_capacity_factor_estimate'', PFloat 0.9),
             (''hydrogen_amount_kgpy'', PInt 65960)],
      ODict [(''name'', PStr ''placeholder'')],
      ODict [(''name'', PStr ''placeholder'')]]"

definition copied_memo :: memo where
  "copied_memo = [(6, 18), (5, 17), (4, 16), (8, 15), (3, 14), (9, 13), (7, 12), (2, 11), (1, 10)]"

section \<open>Store lemmas\<close>













section \<open>Capacity sizing: the closed forms\<close>


lemma size_supply:
  assumes "hydrogen_amount_kgpy c = Some s" and "s \<noteq> 0"
    and "\<not> truthy (desired_iron_win_mtpy c)"
    and "hydrogen_consumption (IronWinCapacityModelConfig.feedstocks c) \<noteq> 0"
  shows "size_placeholder c =
     Inr \<lparr>iron_win_plant_capacity_mtpy =
            s / 1000 / hydrogen_consumption (IronWinCapacityModelConfig.feedstocks c)
              * input_capacity_factor_estimate c,
          out_hydrogen_amount_kgpy = s\<rparr>"
  using assms
  by (auto simp: size_placeholder_def supply_branch_def demand_branch_def truthy_def
      split: option.splits)

lemma size_demand:
  assumes "desired_iron_win_mtpy c = Some d" and "d \<noteq> 0"
    and "\<not> truthy (hydrogen_amount_kgpy c)"
    and "input_capacity_factor_estimate c \<noteq> 0"
  shows "size_placeholder c =
     Inr \<lparr>iron_win_plant_capacity_mtpy = d / input_capacity_factor_estimate c,
          out_hydrogen_amount_kgpy =
            d * 1000 * hydrogen_consumption (IronWinCapacityModelConfig.feedstocks c)
              / input_capacity_factor_estimate c\<rparr>"
  using assms
  by (auto simp: size_placeholder_def supply_branch_def demand_branch_def truthy_def
      split: option.splits)

lemma size_neither:
  assumes "\<not> truthy (hydrogen_amount_kgpy c)" and "\<not> truthy (desired_iron_win_mtpy c)"
  shows "size_placeholder c = Inl UnboundLocalError"
  using assms
  by (auto simp: size_placeholder_def supply_branch_def demand_branch_def truthy_def
      split: option.splits)


lemma placeholder_store_name:
  "subscript placeholder_store (PRef 0) ''name'' = Inr (PStr ''placeholder'')"
  by (simp add: placeholder_store_def)

section \<open>Claims about capacity sizing\<close>



text \<open>
  C2, as stated, fails: with capacity factor 0.9, sizing from 65960 kg of hydrogen gives
  a capacity of 900 tonnes, and sizing in demand mode from \<open>900 * 0.9\<close> tonnes returns
  59364 kg, not 65960.
\<close>

theorem C2_counterexample:
  "run_size_iron_win_plant_capacity example_registry constant_perf_main placeholder_store
       (scenario_capacity_config (Some 65960) None)
     = (Inr \<lparr>iron_win_plant_capacity_mtpy = 900, out_hydrogen_amount_kgpy = 65960\<rparr>,
        placeholder_store)
   \<and> run_size_iron_win_plant_capacity example_registry constant_perf_main placeholder_store
       (scenario_capacity_config None (Some (900 * 0.9)))
     = (Inr \<lparr>iron_win_plant_capacity_mtpy = 900, out_hydrogen_amount_kgpy = 59364\<rparr>,
        placeholder_store)
   \<and> (59364 :: real) \<noteq> 65960"
  by (simp add: run_size_iron_win_plant_capacity_def placeholder_store_def
      scenario_capacity_config_def default_feedstocks_def size_placeholder_def
      supply_branch_def demand_branch_def)

text \<open>
  C2, amended. For a positive consumption rate and capacity factor and a supply \<open>S\<close>
  that is set, the placeholder sizing in supply mode yields the capacity
  \<open>C = S / 1000 / consumption * capacity_factor\<close>; sizing in demand mode from the
  quantity \<open>C\<close> returns the hydrogen amount \<open>S\<close>, and sizing from \<open>C * capacity_factor\<close>
  returns \<open>S * capacity_factor\<close>.
\<close>

theorem C2_sizing_directions:
  assumes "subscript h (performance_model c) ''name'' = Inr (PStr ''placeholder'')"
    and "0 < hydrogen_consumption (IronWinCapacityModelConfig.feedstocks c)"
    and "0 < input_capacity_factor_estimate c"
    and "hydrogen_amount_kgpy c = Some S" and "S \<noteq> 0" and "desired_iron_win_mtpy c = None"
    and "C = S / 1000 / hydrogen_consumption (IronWinCapacityModelConfig.feedstocks c)
               * input_capacity_factor_estimate c"
  shows "run_size_iron_win_plant_capacity reg pm h c
           = (Inr \<lparr>iron_win_plant_capacity_mtpy = C, out_hydrogen_amount_kgpy = S\<rparr>, h)
       \<and> run_size_iron_win_plant_capacity reg pm h
             (c\<lparr>hydrogen_amount_kgpy := None, desired_iron_win_mtpy := Some C\<rparr>)
           = (Inr \<lparr>iron_win_plant_capacity_mtpy = C / input_capacity_factor_estimate c,
                   out_hydrogen_amount_kgpy = S\<rparr>, h)
       \<and> run_size_iron_win_plant_capacity reg pm h
             (c\<lparr>hydrogen_amount_kgpy := None,
                desired_iron_win_mtpy := Some (C * input_capacity_factor_estimate c)\<rparr>)
           = (Inr \<lparr>iron_win_plant_capacity_mtpy = C,
                   out_hydrogen_amount_kgpy = S * input_capacity_factor_estimate c\<rparr>, h)"
proof -
  let ?hc = "hydrogen_consumption (IronWinCapacityModelConfig.feedstocks c)"
  let ?cf = "input_capacity_factor_estimate c"
  have C0: "C \<noteq> 0" and Ccf: "C * ?cf \<noteq> 0"
    using assms(2,3,5,7) by auto
  have first: "size_placeholder c
      = Inr \<lparr>iron_win_plant_capacity_mtpy = C, out_hydrogen_amount_kgpy = S\<rparr>"
    using assms(2,4,5,6,7) by (simp add: size_supply truthy_def)
  have second: "size_placeholder (c\<lparr>hydrogen_amount_kgpy := None, desired_iron_win_mtpy := Some C\<rparr>)
      = Inr \<lparr>iron_win_plant_capacity_mtpy = C / ?cf, out_hydrogen_amount_kgpy = S\<rparr>"
    using assms(2,3,7) C0
    by (subst size_demand[where d=C]) (simp_all add: truthy_def)
  have third: "size_placeholder
        (c\<lparr>hydrogen_amount_kgpy := None, desired_iron_win_mtpy := Some (C * ?cf)\<rparr>)
      = Inr \<lparr>iron_win_plant_capacity_mtpy = C, out_hydrogen_amount_kgpy = S * ?cf\<rparr>"
    using assms(2,3,7) Ccf
    by (subst size_demand[where d="C * ?cf"]) (simp_all add: truthy_def)
  from first second third assms(1) show ?thesis
    by (simp add: run_size_iron_win_plant_capacity_def)
qed

theorem C2_witness:
  "subscript placeholder_store (performance_model (scenario_capacity_config (Some 65960) None))
       ''name'' = Inr (PStr ''placeholder'')
   \<and> (0 :: real) < 0.06596 \<and> (0 :: real) < 0.9 \<and> (65960 :: real) \<noteq> 0
   \<and> (900 :: real) = 65960 / 1000 / 0.06596 * 0.9
   \<and> run_size_iron_win_plant_capacity example_registry constant_perf_main placeholder_store
       (scenario_capacity_config (Some 65960) None)
     = (Inr \<lparr>iron_win_plant_capacity_mtpy = 900, out_hydrogen_amount_kgpy = 65960\<rparr>,
        placeholder_store)
   \<and> run_size_iron_win_plant_capacity example_registry constant_perf_main placeholder_store
       (scenario_capacity_config None (Some 900))
     = (Inr \<lparr>iron_win_plant_capacity_mtpy = 900 / 0.9, out_hydrogen_amount_kgpy = 65960\<rparr>,
        placeholder_store)
   \<and> run_size_iron_win_plant_capacity example_registry constant_perf_main placeholder_store
       (scenario_capacity_config None (Some (900 * 0.9)))
     = (Inr \<lparr>iron_win_plant_capacity_mtpy = 900, out_hydrogen_amount_kgpy = 65960 * 0.9\<rparr>,
        placeholder_store)"
  using C2_sizing_directions
          [of placeholder_store "scenario_capacity_config (Some 65960) None" 65960 900
              example_registry constant_perf_main]
  by (simp add: scenario_capacity_config_def default_feedstocks_def placeholder_store_def)

text \<open>
  C3. The constructor rejects a configuration with neither quantity, rejects one with
  both quantities when both are non-zero, and accepts one with exactly one quantity.
\<close>

lemma capacity_init_exclusive:
  "IronWinCapacityModelConfig_init cf fs None None pm = Inl (ValueError InputRequired)"
  "s \<noteq> 0 \<Longrightarrow> d \<noteq> 0 \<Longrightarrow>
     IronWinCapacityModelConfig_init cf fs (Some s) (Some d) pm = Inl (ValueError OnlyOneInput)"
  "\<exists>c. IronWinCapacityModelConfig_init cf fs (Some s) None pm = Inr c"
  "\<exists>c. IronWinCapacityModelConfig_init cf fs None (Some d) pm = Inr c"
  by (simp_all add: IronWinCapacityModelConfig_init_def capacity_post_init_def truthy_def)

text \<open>
  C3 at the failing input: with both quantities set and one of them \<open>0.0\<close>, both
  constructors return the object instead of raising \<open>ValueError\<close>.
\<close>

theorem C3_both_set_accepted:
  "IronWinCapacityModelConfig_init 0.9 (default_feedstocks (PRef 1)) (Some 0) (Some 1000) (PRef 0)
     = Inr (scenario_capacity_config (Some 0) (Some 1000))
   \<and> IronOreCapacityModelConfig_init 0.9 (default_feedstocks (PRef 1)) (Some 0) (Some 1000) (PRef 0)
     = Inr (scenario_capacity_config (Some 0) (Some 1000))"
  by (simp add: IronOreCapacityModelConfig_init_def IronWinCapacityModelConfig_init_def
      capacity_post_init_def truthy_def scenario_capacity_config_def)

text \<open>
  C10. The constructor accepts \<open>hydrogen_amount_kgpy = 0.0\<close> with no demand quantity;
  for that configuration the placeholder sizing runs neither assignment and raises
  \<open>UnboundLocalError\<close> instead of returning. A configuration with one quantity zero
  and the other set is accepted as well.
\<close>

theorem C10_truthiness_not_presence:
  "IronWinCapacityModelConfig_init cf fs (Some 0) None pm
     = Inr \<lparr>input_capacity_factor_estimate = cf, IronWinCapacityModelConfig.feedstocks = fs,
            hydrogen_amount_kgpy = Some 0, desired_iron_win_mtpy = None, performance_model = pm\<rparr>
   \<and> (subscript h pm ''name'' = Inr (PStr ''placeholder'') \<longrightarrow>
        run_size_iron_win_plant_capacity reg perf h
          \<lparr>input_capacity_factor_estimate = cf, IronWinCapacityModelConfig.feedstocks = fs,
           hydrogen_amount_kgpy = Some 0, desired_iron_win_mtpy = None, performance_model = pm\<rparr>
        = (Inl UnboundLocalError, h))
   \<and> (\<exists>c. IronWinCapacityModelConfig_init cf fs (Some 0) (Some d) pm = Inr c)
   \<and> (\<exists>c. IronWinCapacityModelConfig_init cf fs (Some s) (Some 0) pm = Inr c)"
  by (simp add: IronWinCapacityModelConfig_init_def capacity_post_init_def truthy_def
      run_size_iron_win_plant_capacity_def size_neither)

theorem C10_witness:
  "subscript placeholder_store (PRef 0) ''name'' = Inr (PStr ''placeholder'')
   \<and> IronWinCapacityModelConfig_init 0.9 (default_feedstocks (PRef 1)) (Some 0) None (PRef 0)
     = Inr (scenario_capacity_config (Some 0) None)
   \<and> run_size_iron_win_plant_capacity example_registry constant_perf_main placeholder_store
       (scenario_capacity_config (Some 0) None)
     = (Inl UnboundLocalError, placeholder_store)"
  using C10_truthiness_not_presence
          [of "0.9" "default_feedstocks (PRef 1)" "PRef 0" placeholder_store
              example_registry constant_perf_main 1 1]
  by (simp add: scenario_capacity_config_def placeholder_store_def)





section \<open>Claims about cost estimation\<close>

lemma run_cost_placeholder:
  "subscript h (cost_model c) ''name'' = Inr (PStr ''placeholder'') \<Longrightarrow>
   run_iron_win_cost_model reg cm h c = (cost_placeholder h c, h)"
  by (simp add: run_iron_win_cost_model_def)

lemma cost_placeholder_returns:
  assumes "0 \<le> plant_capacity_mtpy c"
    and "natural_gas_price h (feedstocks c) (operational_year c) = Inr p"
  shows "\<exists>out. cost_placeholder h c = Inr out"
  using assms by (simp add: cost_placeholder_def Let_def)

lemma cost_placeholder_totals:
  assumes "cost_placeholder h c = Inr out"
  shows "total_plant_cost out =
       capex_eaf_casting out + capex_shaft_furnace out + capex_oxygen_supply out
     + capex_h2_preheating out + capex_cooling_tower out + capex_piping out
     + capex_elec_instr out + capex_buildings_storage_water out + IronWinCosts.capex_misc out"
    and "total_fixed_operating_cost out =
       labor_cost_annual_operation out + labor_cost_maintenance out
     + labor_cost_admin_support out + property_tax_insurance out"
  using assms by (auto simp: cost_placeholder_def Let_def split: if_splits sum.splits)

lemma cost_placeholder_capex:
  assumes "cost_placeholder h c = Inr out"
  shows "capex_eaf_casting out =
           model_year_CEPCI / equation_year_CEPCI * 352191.5237 * plant_capacity_mtpy c powr 0.456"
    and "capex_shaft_furnace out =
           model_year_CEPCI / equation_year_CEPCI * 489.68061 * plant_capacity_mtpy c powr 0.88741"
    and "capex_oxygen_supply out =
           model_year_CEPCI / equation_year_CEPCI * 1715.21508 * plant_capacity_mtpy c powr 0.64574"
    and "capex_h2_preheating out =
           (if o2_heat_integration c
            then model_year_CEPCI / equation_year_CEPCI * (1 - 0.4)
                   * (45.69123 * plant_capacity_mtpy c powr 0.86564)
            else model_year_CEPCI / equation_year_CEPCI * 45.69123
                   * plant_capacity_mtpy c powr 0.86564)"
    and "capex_cooling_tower out =
           (if o2_heat_integration c
            then model_year_CEPCI / equation_year_CEPCI * (1 - 0.3)
                   * (2513.08314 * plant_capacity_mtpy c powr 0.63325)
            else model_year_CEPCI / equation_year_CEPCI * 2513.08314
                   * plant_capacity_mtpy c powr 0.63325)"
    and "capex_piping out =
           model_year_CEPCI / equation_year_CEPCI * 11815.72718 * plant_capacity_mtpy c powr 0.59983"
    and "capex_elec_instr out =
           model_year_CEPCI / equation_year_CEPCI * 7877.15146 * plant_capacity_mtpy c powr 0.59983"
    and "capex_buildings_storage_water out =
           model_year_CEPCI / equation_year_CEPCI * 1097.81876 * plant_capacity_mtpy c powr 0.8"
    and "IronWinCosts.capex_misc out = capex_misc c"
  using assms by (auto simp: cost_placeholder_def Let_def split: if_splits sum.splits)

lemma cost_placeholder_owner:
  assumes "cost_placeholder h c = Inr out"
  shows "installation_cost out =
           labor_cost_fivemonth out + 0.02 * total_plant_cost out
         + plant_capacity_mtpy c
             * (raw_water_consumption (feedstocks c) * raw_water_unitcost (feedstocks c)
                + lime_consumption (feedstocks c) * lime_unitcost (feedstocks c)
                + carbon_consumption (feedstocks c) * carbon_unitcost (feedstocks c)
                + iron_ore_consumption (feedstocks c) * iron_ore_pellet_unitcost (feedstocks c))
             / 365 * 60
         + spare_parts_cost out + misc_owners_costs out"
    and "labor_cost_fivemonth out =
           5 / 12 * (labor_cost_annual_operation out + labor_cost_maintenance out
                     + labor_cost_admin_support out)"
    and "spare_parts_cost out = 0.005 * total_plant_cost out"
    and "misc_owners_costs out = 0.15 * total_plant_cost out"
  using assms by (auto simp: cost_placeholder_def Let_def split: if_splits sum.splits)

lemma cost_index_positive: "0 < model_year_CEPCI / equation_year_CEPCI"
  by (simp add: model_year_CEPCI_def equation_year_CEPCI_def)

lemma scenario_costs_returned:
  "cost_placeholder placeholder_store (scenario_cost_config flag) = Inr (scenario_costs flag)"
proof -
  have "natural_gas_price placeholder_store (feedstocks (scenario_cost_config flag))
          (operational_year (scenario_cost_config flag)) = Inr 3.5"
    by (simp add: natural_gas_price_def placeholder_store_def default_feedstocks_def
        scenario_cost_config_def str_int_def str_nat.simps)
  moreover have "0 \<le> plant_capacity_mtpy (scenario_cost_config flag)"
    by (simp add: scenario_cost_config_def)
  ultimately obtain out where "cost_placeholder placeholder_store (scenario_cost_config flag) = Inr out"
    using cost_placeholder_returns by blast
  then show ?thesis by (simp add: scenario_costs_def)
qed

lemma varied_costs_returned:
  "cost_placeholder placeholder_store varied_cost_config = Inr varied_costs"
proof -
  have "natural_gas_price placeholder_store (feedstocks varied_cost_config)
          (operational_year varied_cost_config) = Inr 3.5"
    by (simp add: natural_gas_price_def placeholder_store_def default_feedstocks_def
        varied_cost_config_def varied_feedstocks_def scenario_cost_config_def str_int_def
        str_nat.simps)
  moreover have "0 \<le> plant_capacity_mtpy varied_cost_config"
    by (simp add: varied_cost_config_def scenario_cost_config_def)
  ultimately obtain out where "cost_placeholder placeholder_store varied_cost_config = Inr out"
    using cost_placeholder_returns by blast
  then show ?thesis by (simp add: varied_costs_def)
qed

lemma scenario_cost_model_name:
  "subscript placeholder_store (cost_model (scenario_cost_config flag)) ''name''
     = Inr (PStr ''placeholder'')"
  by (simp add: scenario_cost_config_def placeholder_store_def)

text \<open>
  C1. Whenever the placeholder branch of the cost model (of either module) returns,
  the returned \<open>total_plant_cost\<close> is the sum of the nine returned capital items and
  the returned \<open>total_fixed_operating_cost\<close> is the sum of the four returned fixed-cost
  items.
\<close>

theorem C1_cost_additivity:
  assumes "subscript h (cost_model c) ''name'' = Inr (PStr ''placeholder'')"
    and "run = run_iron_win_cost_model \<or> run = run_iron_ore_cost_model"
    and "run reg cm h c = (Inr out, h')"
  shows "total_plant_cost out =
           capex_eaf_casting out + capex_shaft_furnace out + capex_oxygen_supply out
         + capex_h2_preheating out + capex_cooling_tower out + capex_piping out
         + capex_elec_instr out + capex_buildings_storage_water out
         + IronWinCosts.capex_misc out
       \<and> total_fixed_operating_cost out =
           labor_cost_annual_operation out + labor_cost_maintenance out
         + labor_cost_admin_support out + property_tax_insurance out"
proof -
  from assms(2,3) have "run_iron_win_cost_model reg cm h c = (Inr out, h')"
    by (auto simp: run_iron_ore_cost_model_def)
  with assms(1) have "cost_placeholder h c = Inr out"
    by (auto simp: run_cost_placeholder)
  then show ?thesis
    using cost_placeholder_totals by blast
qed

theorem C1_witness:
  "subscript placeholder_store (cost_model (scenario_cost_config True)) ''name''
     = Inr (PStr ''placeholder'')
   \<and> run_iron_ore_cost_model example_registry failing_cost_main placeholder_store
       (scenario_cost_config True) = (Inr (scenario_costs True), placeholder_store)
   \<and> total_plant_cost (scenario_costs True) =
       capex_eaf_casting (scenario_costs True) + capex_shaft_furnace (scenario_costs True)
     + capex_oxygen_supply (scenario_costs True) + capex_h2_preheating (scenario_costs True)
     + capex_cooling_tower (scenario_costs True) + capex_piping (scenario_costs True)
     + capex_elec_instr (scenario_costs True)
     + capex_buildings_storage_water (scenario_costs True)
     + IronWinCosts.capex_misc (scenario_costs True)
   \<and> total_fixed_operating_cost (scenario_costs True) =
       labor_cost_annual_operation (scenario_costs True)
     + labor_cost_maintenance (scenario_costs True)
     + labor_cost_admin_support (scenario_costs True)
     + property_tax_insurance (scenario_costs True)"
proof -
  have run: "run_iron_ore_cost_model example_registry failing_cost_main placeholder_store
       (scenario_cost_config True) = (Inr (scenario_costs True), placeholder_store)"
    by (simp add: run_iron_ore_cost_model_def run_cost_placeholder scenario_cost_model_name
        scenario_costs_returned)
  from C1_cost_additivity
         [of placeholder_store "scenario_cost_config True" run_iron_ore_cost_model
             example_registry failing_cost_main "scenario_costs True" placeholder_store]
       run scenario_cost_model_name
  show ?thesis by simp
qed

text \<open>
  C4. For a positive plant capacity and two configurations that differ in
  \<open>o2_heat_integration\<close> only, the placeholder cost model returns, with the flag
  on, a preheating cost of 0.6 times and a cooling tower cost of 0.7 times the cost
  with the flag off, both strictly smaller, and the same value for each of the seven
  other capital items.
\<close>

theorem C4_integration_flag:
  assumes "0 < plant_capacity_mtpy c"
    and "subscript h (cost_model c) ''name'' = Inr (PStr ''placeholder'')"
    and "run_iron_win_cost_model reg cm h (c\<lparr>o2_heat_integration := True\<rparr>) = (Inr on, h1)"
    and "run_iron_win_cost_model reg cm h (c\<lparr>o2_heat_integration := False\<rparr>) = (Inr off, h2)"
  shows "capex_h2_preheating on = 0.6 * capex_h2_preheating off
       \<and> capex_cooling_tower on = 0.7 * capex_cooling_tower off
       \<and> capex_h2_preheating on < capex_h2_preheating off
       \<and> capex_cooling_tower on < capex_cooling_tower off
       \<and> capex_eaf_casting on = capex_eaf_casting off
       \<and> capex_shaft_furnace on = capex_shaft_furnace off
       \<and> capex_oxygen_supply on = capex_oxygen_supply off
       \<and> capex_piping on = capex_piping off
       \<and> capex_elec_instr on = capex_elec_instr off
       \<and> capex_buildings_storage_water on = capex_buildings_storage_water off
       \<and> IronWinCosts.capex_misc on = IronWinCosts.capex_misc off"
proof -
  have on: "cost_placeholder h (c\<lparr>o2_heat_integration := True\<rparr>) = Inr on"
    using assms(2,3) by (auto simp: run_cost_placeholder)
  have off: "cost_placeholder h (c\<lparr>o2_heat_integration := False\<rparr>) = Inr off"
    using assms(2,4) by (auto simp: run_cost_placeholder)
  note on_items = cost_placeholder_capex[OF on]
  note off_items = cost_placeholder_capex[OF off]
  have pre: "capex_h2_preheating on = 0.6 * capex_h2_preheating off"
    using on_items(4) off_items(4) by simp
  have cool: "capex_cooling_tower on = 0.7 * capex_cooling_tower off"
    using on_items(5) off_items(5) by simp
  have pre_off: "capex_h2_preheating off =
      model_year_CEPCI / equation_year_CEPCI * 45.69123 * plant_capacity_mtpy c powr 0.86564"
    using off_items(4) by simp
  have cool_off: "capex_cooling_tower off =
      model_year_CEPCI / equation_year_CEPCI * 2513.08314 * plant_capacity_mtpy c powr 0.63325"
    using off_items(5) by simp
  have "0 < model_year_CEPCI / equation_year_CEPCI * 45.69123 * plant_capacity_mtpy c powr 0.86564"
    using assms(1) by (intro mult_pos_pos cost_index_positive) simp_all
  with pre_off have pre_pos: "0 < capex_h2_preheating off"
    by (simp only:)
  have "0 < model_year_CEPCI / equation_year_CEPCI * 2513.08314 * plant_capacity_mtpy c powr 0.63325"
    using assms(1) by (intro mult_pos_pos cost_index_positive) simp_all
  with cool_off have cool_pos: "0 < capex_cooling_tower off"
    by (simp only:)
  have others: "capex_eaf_casting on = capex_eaf_casting off"
      "capex_shaft_furnace on = capex_shaft_furnace off"
      "capex_oxygen_supply on = capex_oxygen_supply off"
      "capex_piping on = capex_piping off"
      "capex_elec_instr on = capex_elec_instr off"
      "capex_buildings_storage_water on = capex_buildings_storage_water off"
      "IronWinCosts.capex_misc on = IronWinCosts.capex_misc off"
    using on_items off_items by simp_all
  from pre cool pre_pos cool_pos others show ?thesis by simp
qed

theorem C4_witness:
  "(0 :: real) < plant_capacity_mtpy (scenario_cost_config True)
   \<and> subscript placeholder_store (cost_model (scenario_cost_config True)) ''name''
       = Inr (PStr ''placeholder'')
   \<and> run_iron_win_cost_model example_registry failing_cost_main placeholder_store
       (scenario_cost_config True) = (Inr (scenario_costs True), placeholder_store)
   \<and> run_iron_win_cost_model example_registry failing_cost_main placeholder_store
       (scenario_cost_config False) = (Inr (scenario_costs False), placeholder_store)
   \<and> capex_h2_preheating (scenario_costs True) = 0.6 * capex_h2_preheating (scenario_costs False)
   \<and> capex_cooling_tower (scenario_costs True) = 0.7 * capex_cooling_tower (scenario_costs False)
   \<and> capex_h2_preheating (scenario_costs True) < capex_h2_preheating (scenario_costs False)
   \<and> capex_cooling_tower (scenario_costs True) < capex_cooling_tower (scenario_costs False)
   \<and> capex_piping (scenario_costs True) = capex_piping (scenario_costs False)"
proof -
  have pos: "(0 :: real) < plant_capacity_mtpy (scenario_cost_config True)"
    by (simp add: scenario_cost_config_def)
  have run: "run_iron_win_cost_model example_registry failing_cost_main placeholder_store
       (scenario_cost_config flag) = (Inr (scenario_costs flag), placeholder_store)" for flag
    by (simp add: run_cost_placeholder scenario_cost_model_name scenario_costs_returned)
  have flag: "(scenario_cost_config True)\<lparr>o2_heat_integration := b\<rparr> = scenario_cost_config b" for b
    by (simp add: scenario_cost_config_def)
  from C4_integration_flag
         [OF pos scenario_cost_model_name, of example_registry failing_cost_main
            "scenario_costs True" placeholder_store "scenario_costs False" placeholder_store]
       pos run scenario_cost_model_name flag
  show ?thesis by simp
qed

text \<open>
  C7. Whenever the placeholder branch returns, \<open>installation_cost\<close> is the sum of the
  five-month labor cost (5/12 of operating, maintenance and administrative labor), 2% of
  \<open>total_plant_cost\<close>, the 60-day supply of non-fuel consumables, \<open>spare_parts_cost\<close>
  (0.5% of \<open>total_plant_cost\<close>) and \<open>misc_owners_costs\<close> (15% of
  \<open>total_plant_cost\<close>). The inputs that only the one-month maintenance-materials,
  waste-disposal and energy costs read (maintenance material and slag costs, the
  hydrogen price, the energy consumptions and prices) do not change it.
\<close>

theorem C7_installation_cost:
  assumes "subscript h (cost_model c) ''name'' = Inr (PStr ''placeholder'')"
    and "run_iron_win_cost_model reg cm h c = (Inr out, h')"
  shows "installation_cost out =
           labor_cost_fivemonth out + 0.02 * total_plant_cost out
         + plant_capacity_mtpy c
             * (raw_water_consumption (feedstocks c) * raw_water_unitcost (feedstocks c)
                + lime_consumption (feedstocks c) * lime_unitcost (feedstocks c)
                + carbon_consumption (feedstocks c) * carbon_unitcost (feedstocks c)
                + iron_ore_consumption (feedstocks c) * iron_ore_pellet_unitcost (feedstocks c))
             / 365 * 60
         + spare_parts_cost out + misc_owners_costs out
       \<and> labor_cost_fivemonth out =
           5 / 12 * (labor_cost_annual_operation out + labor_cost_maintenance out
                     + labor_cost_admin_support out)
       \<and> spare_parts_cost out = 0.005 * total_plant_cost out
       \<and> misc_owners_costs out = 0.15 * total_plant_cost out
       \<and> (\<forall>x y (fs' :: Feedstocks) g out'.
            cost_placeholder g
              (c\<lparr>lcoh := x, operational_year := y,
                 feedstocks := (feedstocks c)
                   \<lparr>natural_gas_prices := natural_gas_prices fs',
                    maintenance_materials_unitcost := maintenance_materials_unitcost fs',
                    slag_disposal_unitcost := slag_disposal_unitcost fs',
                    slag_production := slag_production fs',
                    hydrogen_consumption := hydrogen_consumption fs',
                    natural_gas_consumption := natural_gas_consumption fs',
                    electricity_consumption := electricity_consumption fs',
                    electricity_cost := electricity_cost fs'\<rparr>\<rparr>) = Inr out'
            \<longrightarrow> installation_cost out' = installation_cost out)"
proof -
  have out: "cost_placeholder h c = Inr out"
    using assms by (auto simp: run_cost_placeholder)
  have same: "installation_cost out' = installation_cost out"
    if "cost_placeholder g
              (c\<lparr>lcoh := x, operational_year := y,
                 feedstocks := (feedstocks c)
                   \<lparr>natural_gas_prices := natural_gas_prices fs',
                    maintenance_materials_unitcost := maintenance_materials_unitcost fs',
                    slag_disposal_unitcost := slag_disposal_unitcost fs',
                    slag_production := slag_production fs',
                    hydrogen_consumption := hydrogen_consumption fs',
                    natural_gas_consumption := natural_gas_consumption fs',
                    electricity_consumption := electricity_consumption fs',
                    electricity_cost := electricity_cost fs'\<rparr>\<rparr>) = Inr out'"
    for x y and fs' :: Feedstocks and g out'
    using that out
    by (auto simp: cost_placeholder_def Let_def split: if_splits sum.splits)
  from cost_placeholder_owner[OF out] same show ?thesis
    by blast
qed

theorem C7_witness:
  "subscript placeholder_store (cost_model (scenario_cost_config True)) ''name''
     = Inr (PStr ''placeholder'')
   \<and> run_iron_win_cost_model example_registry failing_cost_main placeholder_store
       (scenario_cost_config True) = (Inr (scenario_costs True), placeholder_store)
   \<and> spare_parts_cost (scenario_costs True) = 0.005 * total_plant_cost (scenario_costs True)
   \<and> misc_owners_costs (scenario_costs True) = 0.15 * total_plant_cost (scenario_costs True)
   \<and> cost_placeholder placeholder_store varied_cost_config = Inr varied_costs
   \<and> installation_cost varied_costs = installation_cost (scenario_costs True)"
proof -
  have run: "run_iron_win_cost_model example_registry failing_cost_main placeholder_store
       (scenario_cost_config True) = (Inr (scenario_costs True), placeholder_store)"
    by (simp add: run_cost_placeholder scenario_cost_model_name scenario_costs_returned)
  note th = C7_installation_cost [OF scenario_cost_model_name run]
  note all = th [THEN conjunct2, THEN conjunct2, THEN conjunct2, THEN conjunct2]
  have "installation_cost varied_costs = installation_cost (scenario_costs True)"
    using all [rule_format, where x = 7 and y = 2035 and fs' = varied_feedstocks
                 and g = placeholder_store and out' = varied_costs,
               folded varied_cost_config_def]
      varied_costs_returned by simp
  with th run scenario_cost_model_name varied_costs_returned
  show ?thesis by simp
qed

section \<open>The deep copy stays in its own region\<close>













section \<open>The stages write into the copy only\<close>















section \<open>The LCOH check\<close>

lemma subscript_error:
  "subscript h r k = Inl e \<Longrightarrow> e = KeyError k \<or> e = TypeError \<or> e = InvalidRef"
  by (cases r) (auto split: if_splits pyobj.splits option.splits)

lemma kwargs_of_error: "kwargs_of h kw = Inl e \<Longrightarrow> e = TypeError \<or> e = InvalidRef"
  by (cases kw) (auto split: if_splits pyobj.splits)

lemma Feedstocks_init_error: "Feedstocks_init h kw = Inl e \<Longrightarrow> e = TypeError \<or> e = InvalidRef"
proof (cases "kwargs_of h kw")
  case (Inl e')
  then show "Feedstocks_init h kw = Inl e \<Longrightarrow> ?thesis"
    by (auto simp: Feedstocks_init_def dest: kwargs_of_error)
next
  case (Inr d)
  then show "Feedstocks_init h kw = Inl e \<Longrightarrow> ?thesis"
    by (cases "map_of d ''natural_gas_prices''")
       (simp_all add: Feedstocks_init_def split: if_splits)
qed

lemma make_feedstocks_error:
  assumes "make_feedstocks h cfg = (Inl e, h')"
  shows "e \<noteq> ValueError w"
proof -
  from assms consider r k where "subscript h r k = Inl e" | kw where "Feedstocks_init h kw = Inl e"
    by (auto simp: make_feedstocks_def split: sum.splits)
  then show ?thesis
    by cases (auto dest: subscript_error Feedstocks_init_error)
qed

lemma gate_mismatch:
  assumes "subscript h cfg ''costs'' = Inr cs" and "subscript h cs ''lcoh'' = Inr lc"
    and "subscript h cfg ''finances'' = Inr fin" and "subscript h fin ''lcoh'' = Inr lf"
    and "py_eq limit h lc lf = Inr same"
  shows "lcoh_gate limit h cfg = (if same then Inr () else Inl (ValueError LcohNotEqual))"
  using assms by (simp add: lcoh_gate_def)

lemma full_model_after_gate:
  assumes "subscript h g ''iron'' = Inr iron"
    and "deepcopy (recursion_limit env) iron ([], h) = (Inr cfg, (m, h1))"
    and "lcoh_gate (recursion_limit env) h1 cfg = Inr ()"
    and "fst (run_iron_full_model t env sv sh od ds h g) = Inl (ValueError w)"
  shows "snd (snd (run_iron_full_model t env sv sh od ds h g)) \<noteq> []"
proof -
  obtain r2 h2 where made: "make_feedstocks h1 cfg = (r2, h2)"
    by (cases "make_feedstocks h1 cfg")
  show ?thesis
  proof (cases r2)
    case (Inl e)
    with made have "e \<noteq> ValueError w"
      using make_feedstocks_error by blast
    with assms made Inl show ?thesis
      by (simp add: run_iron_full_model_def)
  next
    case (Inr x)
    with assms(1-3) made show ?thesis
      by (auto simp: run_iron_full_model_def split: prod.splits sum.splits)
  qed
qed

text \<open>
  C5. Let the deep copy of \<open>config['iron']\<close> succeed, and let the copy hold a
  cost-stage and a finance-stage LCOH. When the two differ (\<^verbatim>\<open>!=\<close>), both
  orchestrators raise the consistency \<open>ValueError\<close> with no stage begun, leaving the
  store as the copy left it. When they are equal the check passes: a \<open>ValueError\<close>
  of that kind can then only come out of a stage.
\<close>

theorem C5_lcoh_consistency_gate:
  assumes "run = run_iron_win_full_model \<or> run = run_iron_ore_full_model"
    and "subscript h g ''iron'' = Inr iron"
    and "deepcopy (recursion_limit env) iron ([], h) = (Inr cfg, (m, h1))"
    and "subscript h1 cfg ''costs'' = Inr cs" and "subscript h1 cs ''lcoh'' = Inr lc"
    and "subscript h1 cfg ''finances'' = Inr fin" and "subscript h1 fin ''lcoh'' = Inr lf"
    and "py_eq (recursion_limit env) h1 lc lf = Inr same"
  shows "(\<not> same \<longrightarrow> run env sv sh od ds h g = (Inl (ValueError LcohNotEqual), h1, []))
       \<and> (same \<longrightarrow> lcoh_gate (recursion_limit env) h1 cfg = Inr ()
                  \<and> (fst (run env sv sh od ds h g) = Inl (ValueError LcohNotEqual)
                       \<longrightarrow> snd (snd (run env sv sh od ds h g)) \<noteq> []))"
proof -
  from assms(1) obtain t where run: "run = run_iron_full_model t"
    by (auto simp: run_iron_win_full_model_def run_iron_ore_full_model_def)
  have gate: "lcoh_gate (recursion_limit env) h1 cfg
      = (if same then Inr () else Inl (ValueError LcohNotEqual))"
    using assms(4-8) by (rule gate_mismatch)
  have differ: "run env sv sh od ds h g = (Inl (ValueError LcohNotEqual), h1, [])" if "\<not> same"
    using that gate assms(2,3) run by (simp add: run_iron_full_model_def)
  have equal: "snd (snd (run env sv sh od ds h g)) \<noteq> []"
    if "same" and "fst (run env sv sh od ds h g) = Inl (ValueError LcohNotEqual)"
  proof -
    from that(1) gate have passed: "lcoh_gate (recursion_limit env) h1 cfg = Inr ()"
      by simp
    from that(2) run
    have "fst (run_iron_full_model t env sv sh od ds h g) = Inl (ValueError LcohNotEqual)"
      by simp
    from full_model_after_gate[OF assms(2,3) passed this] run show ?thesis
      by simp
  qed
  from gate differ equal show ?thesis
    by simp
qed

lemma greenheart_copy:
  "deepcopy 1000 (PRef 1) ([], greenheart_store x) = (Inr (PRef 10), (copied_memo, copied_store x))"
  by code_simp

lemma greenheart_lookups:
  "subscript (greenheart_store x) (PRef 0) ''iron'' = Inr (PRef 1)"
  "subscript (copied_store x) (PRef 10) ''costs'' = Inr (PRef 11)"
  "subscript (copied_store x) (PRef 11) ''lcoh'' = Inr (PFloat 4)"
  "subscript (copied_store x) (PRef 10) ''finances'' = Inr (PRef 14)"
  "subscript (copied_store x) (PRef 14) ''lcoh'' = Inr (PFloat x)"
  by (simp_all add: greenheart_store_def copied_store_def)

theorem C5_witness:
  "subscript (greenheart_store 5) (PRef 0) ''iron'' = Inr (PRef 1)
   \<and> deepcopy (recursion_limit example_environment) (PRef 1) ([], greenheart_store 5)
       = (Inr (PRef 10), (copied_memo, copied_store 5))
   \<and> subscript (copied_store 5) (PRef 10) ''costs'' = Inr (PRef 11)
   \<and> subscript (copied_store 5) (PRef 11) ''lcoh'' = Inr (PFloat 4)
   \<and> subscript (copied_store 5) (PRef 10) ''finances'' = Inr (PRef 14)
   \<and> subscript (copied_store 5) (PRef 14) ''lcoh'' = Inr (PFloat 5)
   \<and> py_eq (recursion_limit example_environment) (copied_store 5) (PFloat 4) (PFloat 5)
       = Inr False
   \<and> run_iron_win_full_model example_environment False False ''./output/'' 0
         (greenheart_store 5) (PRef 0)
       = (Inl (ValueError LcohNotEqual), copied_store 5, [])
   \<and> run_iron_ore_full_model example_environment False False ''./output/'' 0
         (greenheart_store 5) (PRef 0)
       = (Inl (ValueError LcohNotEqual), copied_store 5, [])
   \<and> py_eq (recursion_limit example_environment) (copied_store 4) (PFloat 4) (PFloat 4)
       = Inr True
   \<and> lcoh_gate (recursion_limit example_environment) (copied_store 4) (PRef 10) = Inr ()"
proof -
  have limit: "recursion_limit example_environment = 1000"
    by (simp add: example_environment_def)
  have copy: "deepcopy (recursion_limit example_environment) (PRef 1) ([], greenheart_store x)
       = (Inr (PRef 10), (copied_memo, copied_store x))" for x
    unfolding limit by (rule greenheart_copy)
  have differ: "py_eq (recursion_limit example_environment) (copied_store 5) (PFloat 4) (PFloat 5)
       = Inr False"
    by (simp add: atom_eq_def)
  have same: "py_eq (recursion_limit example_environment) (copied_store 4) (PFloat 4) (PFloat 4)
       = Inr True"
    by (simp add: atom_eq_def)
  note win = C5_lcoh_consistency_gate
      [of run_iron_win_full_model "greenheart_store 5" "PRef 0" "PRef 1" example_environment
          "PRef 10" copied_memo "copied_store 5" "PRef 11" "PFloat 4" "PRef 14" "PFloat 5" False
          False False "''./output/''" 0,
       OF _ greenheart_lookups(1) copy greenheart_lookups(2-5) differ]
  note ore = C5_lcoh_consistency_gate
      [of run_iron_ore_full_model "greenheart_store 5" "PRef 0" "PRef 1" example_environment
          "PRef 10" copied_memo "copied_store 5" "PRef 11" "PFloat 4" "PRef 14" "PFloat 5" False
          False False "''./output/''" 0,
       OF _ greenheart_lookups(1) copy greenheart_lookups(2-5) differ]
  note passes = C5_lcoh_consistency_gate
      [of run_iron_win_full_model "greenheart_store 4" "PRef 0" "PRef 1" example_environment
          "PRef 10" copied_memo "copied_store 4" "PRef 11" "PFloat 4" "PRef 14" "PFloat 4" True
          False False "''./output/''" 0,
       OF _ greenheart_lookups(1) copy greenheart_lookups(2-5) same]
  from win ore passes copy differ same greenheart_lookups show ?thesis
    by simp
qed

end
